theory Spec2Isabelle
  imports Complex_Main "HOL-Library.AList" "HOL-Library.Log_Nat"
begin

section \<open>Data model of the notification engine\<close>

text \<open>
  The embedding follows \<^verbatim>\<open>notifications.service.ts\<close> (class \<^verbatim>\<open>NotificationsService\<close>),
  \<^verbatim>\<open>entities/notification.entity.ts\<close> and \<^verbatim>\<open>notifications/dto/notification.dto.ts\<close>.
  The two TypeORM repositories are tables, modelled as lists of rows. Values that the
  environment supplies (the uuid the database generates for a new row, the readings of the
  clock) are explicit arguments of the operations. A \<^verbatim>\<open>Date\<close> is its number of milliseconds
  since the epoch, a JavaScript number that holds a count is an \<^typ>\<open>int\<close> (counts stay far
  below \<open>2 ^ 53\<close>, up to which doubles hold the integers exactly), and any other JavaScript
  number is a rational that is a double: the arithmetic on them is IEEE 754 double
  precision, modelled below. Each service call, and each timer callback, runs as one step.
\<close>

subsection \<open>Enumerations\<close>

text \<open>The enums of the DTO file.\<close>

datatype NotificationType = EMAIL | PUSH | SMS | IN_APP

datatype NotificationStatus = PENDING | SENT | DELIVERED | FAILED | BOUNCED

datatype NotificationTemplate =
    APPLICATION_SUBMITTED | APPLICATION_STATUS_CHANGED | JOB_MATCH | INTERVIEW_SCHEDULED
  | PROFILE_VIEWED | MESSAGE_RECEIVED | DEADLINE_REMINDER | WELCOME | PASSWORD_RESET
  | EMAIL_VERIFICATION

datatype NotificationPriority = LOW | NORMAL | HIGH | URGENT

text \<open>The enums of the entity file, imported by the service under the \<^verbatim>\<open>Entity\<close> prefix.\<close>

datatype EntityNotificationType = Entity_EMAIL | Entity_PUSH | Entity_SMS | Entity_IN_APP

datatype EntityNotificationStatus =
  Entity_PENDING | Entity_SENT | Entity_DELIVERED | Entity_FAILED | Entity_BOUNCED

text \<open>The string value of each enum member, as the TypeScript enums declare them.\<close>

fun NotificationTemplate_value :: "NotificationTemplate \<Rightarrow> string" where
  "NotificationTemplate_value APPLICATION_SUBMITTED = ''application_submitted''"
| "NotificationTemplate_value APPLICATION_STATUS_CHANGED = ''application_status_changed''"
| "NotificationTemplate_value JOB_MATCH = ''job_match''"
| "NotificationTemplate_value INTERVIEW_SCHEDULED = ''interview_scheduled''"
| "NotificationTemplate_value PROFILE_VIEWED = ''profile_viewed''"
| "NotificationTemplate_value MESSAGE_RECEIVED = ''message_received''"
| "NotificationTemplate_value DEADLINE_REMINDER = ''deadline_reminder''"
| "NotificationTemplate_value WELCOME = ''welcome''"
| "NotificationTemplate_value PASSWORD_RESET = ''password_reset''"
| "NotificationTemplate_value EMAIL_VERIFICATION = ''email_verification''"

fun NotificationPriority_value :: "NotificationPriority \<Rightarrow> string" where
  "NotificationPriority_value LOW = ''low''"
| "NotificationPriority_value NORMAL = ''normal''"
| "NotificationPriority_value HIGH = ''high''"
| "NotificationPriority_value URGENT = ''urgent''"

subsection \<open>JSON values and payload objects\<close>

text \<open>
  \<^verbatim>\<open>payload: Record<string, any>\<close> is a JSON object: a list of key/value pairs in insertion
  order, with one entry per key.
\<close>

datatype json =
    JNull
  | JBool bool
  | JNumber int
  | JString string
  | JArray "json list"
  | JObject "(string \<times> json) list"

type_synonym payload_object = "(string \<times> json) list"

text \<open>
  \<^verbatim>\<open>{ ...obj, key: v }\<close>: the entries of \<^verbatim>\<open>obj\<close>, with \<^verbatim>\<open>key\<close> overwritten in place
  when it is there and appended when it is not.
\<close>

definition spread_with :: "payload_object \<Rightarrow> string \<Rightarrow> json \<Rightarrow> payload_object" where
  "spread_with obj key v = AList.update key v obj"

text \<open>JavaScript truthiness of a string: every string but the empty one.\<close>

definition truthy_string :: "string \<Rightarrow> bool" where
  "truthy_string s = (s \<noteq> [])"

subsection \<open>Entities\<close>

text \<open>
  A row of the \<^verbatim>\<open>notifications\<close> table. The fields \<^verbatim>\<open>id\<close> and \<^verbatim>\<open>type\<close> carry a prime,
  the names being taken in HOL.
\<close>

record Notification =
  id' :: string
  recipient_id :: string
  type' :: EntityNotificationType
  template :: string
  subject :: string
  content :: string
  payload :: payload_object
  status :: EntityNotificationStatus
  external_id :: "string option"
  error_message :: "string option"
  retry_count :: int
  sent_at :: "int option"
  delivered_at :: "int option"
  opened_at :: "int option"
  clicked_at :: "int option"
  created_at :: int
  updated_at :: int

text \<open>
  A row of the \<^verbatim>\<open>users\<close> table; the service reads the primary key only.
\<close>

record User =
  user_id :: string
  email :: string

text \<open>
  What \<^verbatim>\<open>new Notification()\<close> holds when the service hands it to \<^verbatim>\<open>save\<close>: the fields
  the service assigned. The others are filled in by the insert.
\<close>

record NewNotification =
  new_recipient_id :: string
  new_type :: EntityNotificationType
  new_template :: string
  new_subject :: string
  new_content :: string
  new_payload :: payload_object
  new_status :: EntityNotificationStatus

subsection \<open>Request and response objects\<close>

record CreateNotificationDto =
  c_recipient_id :: string
  c_type :: NotificationType
  c_template :: NotificationTemplate
  c_subject :: string
  c_content :: string
  c_payload :: "payload_object option"
  c_priority :: "NotificationPriority option"
  c_scheduled_at :: "string option"

record BulkNotificationDto =
  b_recipient_ids :: "string list"
  b_type :: NotificationType
  b_template :: NotificationTemplate
  b_subject :: string
  b_content :: string
  b_payload :: "payload_object option"
  b_priority :: "NotificationPriority option"

text \<open>
  The timestamps of an update request are ISO strings that the service turns into dates
  with \<^verbatim>\<open>new Date(...)\<close>; the request holds the instant the string denotes. The retry count
  of a request is a number (\<^verbatim>\<open>@IsNumber() @Min(0)\<close>), not necessarily a whole one.
\<close>

record UpdateNotificationDto =
  u_status :: "NotificationStatus option"
  u_external_id :: "string option"
  u_error_message :: "string option"
  u_retry_count :: "rat option"
  u_sent_at :: "int option"
  u_delivered_at :: "int option"
  u_opened_at :: "int option"
  u_clicked_at :: "int option"

text \<open>
  The object \<^verbatim>\<open>transformNotificationToDto\<close> returns. Its timestamps are the ISO rendering
  of the entity's dates (\<^verbatim>\<open>toISOString\<close>); the model keeps the instant.
\<close>

record NotificationResponse =
  r_id :: string
  r_recipient_id :: string
  r_type :: NotificationType
  r_template :: string
  r_subject :: string
  r_content :: string
  r_payload :: payload_object
  r_status :: NotificationStatus
  r_external_id :: "string option"
  r_error_message :: "string option"
  r_retry_count :: int
  r_sent_at :: "int option"
  r_delivered_at :: "int option"
  r_opened_at :: "int option"
  r_clicked_at :: "int option"
  r_created_at :: int
  r_updated_at :: int
  r_is_read :: bool

text \<open>
  What a service call throws: one of the two HTTP exceptions the service raises itself, or the
  \<^verbatim>\<open>QueryFailedError\<close> of TypeORM when the database refuses a statement.
\<close>

datatype Exception =
    NotFoundException string
  | BadRequestException string
  | QueryFailedError

subsection \<open>The state: two tables and the pending delivery timers\<close>

text \<open>
  \<^verbatim>\<open>processNotificationAsync\<close> only arms a timer (\<^verbatim>\<open>setTimeout\<close>, 2 seconds) for the
  notification id and returns; \<open>timers\<close> lists the ids whose timer is armed. The callback of
  that timer arms a second one (1 second) whose callback holds on to the entity the first
  callback loaded; \<open>confirmations\<close> lists the entities held by the armed second timers.
\<close>

record Repos =
  notificationRepository :: "Notification list"
  userRepository :: "User list"
  timers :: "string list"
  confirmations :: "Notification list"

subsection \<open>Enum mappings of the service\<close>

fun mapNotificationType :: "NotificationType \<Rightarrow> EntityNotificationType" where
  "mapNotificationType EMAIL = Entity_EMAIL"
| "mapNotificationType PUSH = Entity_PUSH"
| "mapNotificationType SMS = Entity_SMS"
| "mapNotificationType IN_APP = Entity_IN_APP"

fun mapNotificationStatus :: "NotificationStatus \<Rightarrow> EntityNotificationStatus" where
  "mapNotificationStatus PENDING = Entity_PENDING"
| "mapNotificationStatus SENT = Entity_SENT"
| "mapNotificationStatus DELIVERED = Entity_DELIVERED"
| "mapNotificationStatus FAILED = Entity_FAILED"
| "mapNotificationStatus BOUNCED = Entity_BOUNCED"

fun mapEntityNotificationTypeToDto :: "EntityNotificationType \<Rightarrow> NotificationType" where
  "mapEntityNotificationTypeToDto Entity_EMAIL = EMAIL"
| "mapEntityNotificationTypeToDto Entity_PUSH = PUSH"
| "mapEntityNotificationTypeToDto Entity_SMS = SMS"
| "mapEntityNotificationTypeToDto Entity_IN_APP = IN_APP"

fun mapEntityNotificationStatusToDto :: "EntityNotificationStatus \<Rightarrow> NotificationStatus" where
  "mapEntityNotificationStatusToDto Entity_PENDING = PENDING"
| "mapEntityNotificationStatusToDto Entity_SENT = SENT"
| "mapEntityNotificationStatusToDto Entity_DELIVERED = DELIVERED"
| "mapEntityNotificationStatusToDto Entity_FAILED = FAILED"
| "mapEntityNotificationStatusToDto Entity_BOUNCED = BOUNCED"

definition transformNotificationToDto :: "Notification \<Rightarrow> NotificationResponse" where
  "transformNotificationToDto n =
     \<lparr> r_id = id' n,
       r_recipient_id = recipient_id n,
       r_type = mapEntityNotificationTypeToDto (type' n),
       r_template = template n,
       r_subject = subject n,
       r_content = content n,
       r_payload = payload n,
       r_status = mapEntityNotificationStatusToDto (status n),
       r_external_id = external_id n,
       r_error_message = error_message n,
       r_retry_count = retry_count n,
       r_sent_at = sent_at n,
       r_delivered_at = delivered_at n,
       r_opened_at = opened_at n,
       r_clicked_at = clicked_at n,
       r_created_at = created_at n,
       r_updated_at = updated_at n,
       r_is_read = (opened_at n \<noteq> None) \<rparr>"

subsection \<open>The repository operations the service calls\<close>

text \<open>
  \<^verbatim>\<open>findOne({ where: { id } })\<close> on either table: the row with that primary key, if any.
\<close>

definition findOne_user :: "string \<Rightarrow> Repos \<Rightarrow> User option" where
  "findOne_user uid st = find (\<lambda>u. user_id u = uid) (userRepository st)"

definition findOne_notification :: "string \<Rightarrow> Repos \<Rightarrow> Notification option" where
  "findOne_notification nid st = find (\<lambda>n. id' n = nid) (notificationRepository st)"

text \<open>
  \<^verbatim>\<open>save\<close> of a new entity inserts a row: the database generates the primary key
  (\<^verbatim>\<open>@PrimaryGeneratedColumn('uuid')\<close>), sets both date columns to its clock, and gives the
  columns the service left unassigned their defaults (\<^verbatim>\<open>retry_count\<close> 0, the nullable
  columns null).
\<close>

definition inserted_row :: "string \<Rightarrow> int \<Rightarrow> NewNotification \<Rightarrow> Notification" where
  "inserted_row uuid db_now e =
     \<lparr> id' = uuid,
       recipient_id = new_recipient_id e,
       type' = new_type e,
       template = new_template e,
       subject = new_subject e,
       content = new_content e,
       payload = new_payload e,
       status = new_status e,
       external_id = None,
       error_message = None,
       retry_count = 0,
       sent_at = None,
       delivered_at = None,
       opened_at = None,
       clicked_at = None,
       created_at = db_now,
       updated_at = db_now \<rparr>"

text \<open>
  \<^verbatim>\<open>save\<close> of a loaded entity updates its row. TypeORM writes only when a column differs
  from the stored row, and then the \<^verbatim>\<open>@UpdateDateColumn\<close> is set to the database clock.
\<close>

definition saved_row :: "int \<Rightarrow> Notification \<Rightarrow> Notification \<Rightarrow> Notification" where
  "saved_row db_now e stored =
     (if e = stored then stored else e\<lparr>updated_at := db_now\<rparr>)"

definition save_existing :: "int \<Rightarrow> Notification \<Rightarrow> Notification list \<Rightarrow> Notification list" where
  "save_existing db_now e rows =
     map (\<lambda>stored. if id' stored = id' e then saved_row db_now e stored else stored) rows"

text \<open>
  \<^verbatim>\<open>save\<close> of an entity that has a primary key: TypeORM looks the row up by the key,
  updates it when it is there and inserts the entity, with the column values it carries,
  when it is not.
\<close>

definition save_entity :: "int \<Rightarrow> Notification \<Rightarrow> Notification list \<Rightarrow> Notification list" where
  "save_entity db_now e rows =
     (if id' e \<in> id' ` set rows then save_existing db_now e rows else rows @ [e])"

subsection \<open>The column types\<close>

text \<open>
  The entity declares \<^verbatim>\<open>retry_count\<close> as \<^verbatim>\<open>int\<close>, which is PostgreSQL's four-byte integer,
  and \<^verbatim>\<open>external_id\<close> as \<^verbatim>\<open>varchar(255)\<close>; \<^verbatim>\<open>error_message\<close> is \<^verbatim>\<open>text\<close>. A statement
  with a value its column cannot hold fails, TypeORM throws \<^verbatim>\<open>QueryFailedError\<close>, and the
  table is as it was. The driver sends a number as its decimal text, which the integer
  column reads only when it is a whole number in range. A \<^verbatim>\<open>varchar(255)\<close> takes a longer
  string only when all that exceeds 255 characters is spaces, and stores the first 255.
  No character column takes a string with a NUL character.
\<close>

definition int4 :: "int \<Rightarrow> bool" where
  "int4 i = (- 2147483648 \<le> i \<and> i \<le> 2147483647)"

definition int4_of_number :: "rat \<Rightarrow> int option" where
  "int4_of_number q = (if of_int \<lfloor>q\<rfloor> = q \<and> int4 \<lfloor>q\<rfloor> then Some \<lfloor>q\<rfloor> else None)"

definition text_value :: "string \<Rightarrow> bool" where
  "text_value s = (CHR 0x00 \<notin> set s)"

definition varchar_255 :: "string \<Rightarrow> string option" where
  "varchar_255 s =
     (if text_value s \<and> list_all (\<lambda>c. c = CHR '' '') (drop 255 s) then Some (take 255 s)
      else None)"

text \<open>The row as the columns hold it, for an entity whose values the columns take.\<close>

definition column_form :: "Notification \<Rightarrow> Notification" where
  "column_form n = n\<lparr>external_id := map_option (take 255) (external_id n)\<rparr>"

subsection \<open>The delivery timers\<close>

definition processNotificationAsync :: "string \<Rightarrow> Repos \<Rightarrow> Repos" where
  "processNotificationAsync nid st = st\<lparr>timers := timers st @ [nid]\<rparr>"

text \<open>
  The callback of the 2-second timer: it loads the row again and, when its status is still
  pending, marks the entity sent, arms the 1-second timer and saves the entity. \<open>now\<close> is
  the reading of \<^verbatim>\<open>new Date()\<close>. The second callback keeps a reference to the entity, which
  by the time it runs carries the update date the save wrote back.
\<close>

definition delivery_callback :: "int \<Rightarrow> int \<Rightarrow> string \<Rightarrow> Repos \<Rightarrow> Repos" where
  "delivery_callback now db_now notificationId st =
     (case findOne_notification notificationId st of
        None \<Rightarrow> st
      | Some notification \<Rightarrow>
          if status notification = Entity_PENDING
          then (let sent = notification\<lparr>status := Entity_SENT, sent_at := Some now\<rparr>;
                    held = saved_row db_now sent notification
                in st\<lparr>notificationRepository :=
                         save_existing db_now sent (notificationRepository st),
                       confirmations := confirmations st @ [held]\<rparr>)
          else st)"

text \<open>
  The callback of the 1-second timer: it marks the entity it holds delivered and saves it,
  without loading the row again. Every column of the row is written from the entity, as it
  was loaded a second earlier.
\<close>

definition confirmation_callback :: "int \<Rightarrow> int \<Rightarrow> Notification \<Rightarrow> Repos \<Rightarrow> Repos" where
  "confirmation_callback now db_now held st =
     (let delivered = held\<lparr>status := Entity_DELIVERED, delivered_at := Some now\<rparr>
      in st\<lparr>notificationRepository := save_entity db_now delivered (notificationRepository st)\<rparr>)"

text \<open>A timer that fires leaves the list of the armed ones.\<close>

definition without :: "nat \<Rightarrow> 'a list \<Rightarrow> 'a list" where
  "without k xs = take k xs @ drop (Suc k) xs"

definition fire_delivery_timer :: "nat \<Rightarrow> int \<Rightarrow> int \<Rightarrow> Repos \<Rightarrow> Repos" where
  "fire_delivery_timer k now db_now st =
     (if k < length (timers st)
      then delivery_callback now db_now (timers st ! k) (st\<lparr>timers := without k (timers st)\<rparr>)
      else st)"

definition fire_confirmation_timer :: "nat \<Rightarrow> int \<Rightarrow> int \<Rightarrow> Repos \<Rightarrow> Repos" where
  "fire_confirmation_timer k now db_now st =
     (if k < length (confirmations st)
      then confirmation_callback now db_now (confirmations st ! k)
             (st\<lparr>confirmations := without k (confirmations st)\<rparr>)
      else st)"

section \<open>Dispatch of a single notification\<close>

text \<open>
  The entity \<^verbatim>\<open>createNotification\<close> builds before saving. \<^verbatim>\<open>createDto.payload || {}\<close>: an
  object is truthy, so only a missing payload gives the empty object. The two \<^verbatim>\<open>if\<close>s test
  truthiness of a string.
\<close>

definition createNotification_entity :: "CreateNotificationDto \<Rightarrow> NewNotification" where
  "createNotification_entity createDto =
     (let p0 = (case c_payload createDto of None \<Rightarrow> [] | Some p \<Rightarrow> p);
          p1 = (case c_priority createDto of
                  None \<Rightarrow> p0
                | Some pr \<Rightarrow>
                    if truthy_string (NotificationPriority_value pr)
                    then spread_with p0 ''priority'' (JString (NotificationPriority_value pr))
                    else p0);
          p2 = (case c_scheduled_at createDto of
                  None \<Rightarrow> p1
                | Some s \<Rightarrow>
                    if truthy_string s then spread_with p1 ''scheduled_at'' (JString s) else p1)
      in \<lparr> new_recipient_id = c_recipient_id createDto,
           new_type = mapNotificationType (c_type createDto),
           new_template = NotificationTemplate_value (c_template createDto),
           new_subject = c_subject createDto,
           new_content = c_content createDto,
           new_payload = p2,
           new_status = Entity_PENDING \<rparr>)"

text \<open>
  \<open>uuid\<close> is the key the database generates for the row and \<open>db_now\<close> its clock at the
  insert.
\<close>

definition createNotification ::
  "string \<Rightarrow> int \<Rightarrow> CreateNotificationDto \<Rightarrow> Repos
     \<Rightarrow> (Exception + NotificationResponse) \<times> Repos" where
  "createNotification uuid db_now createDto st =
     (case findOne_user (c_recipient_id createDto) st of
        None \<Rightarrow> (Inl (NotFoundException ''Recipient user not found''), st)
      | Some recipient \<Rightarrow>
          (let savedNotification = inserted_row uuid db_now (createNotification_entity createDto);
               st1 = st\<lparr>notificationRepository := notificationRepository st @ [savedNotification]\<rparr>;
               st2 = processNotificationAsync (id' savedNotification) st1
           in (Inr (transformNotificationToDto savedNotification), st2)))"

section \<open>Bulk dispatch\<close>

text \<open>
  \<^verbatim>\<open>find({ where: { id: In(ids) } })\<close>: the rows of the \<^verbatim>\<open>users\<close> table whose primary key
  is one of \<open>ids\<close>. The table is scanned once, so a row is returned once however many times
  its key is written in \<open>ids\<close>.
\<close>

definition find_users_In :: "string list \<Rightarrow> Repos \<Rightarrow> User list" where
  "find_users_In ids st = filter (\<lambda>u. user_id u \<in> set ids) (userRepository st)"

text \<open>The decimal digits of a number, as a template literal prints it.\<close>

fun nat_toString :: "nat \<Rightarrow> string" where
  "nat_toString n =
     (if n < 10 then [''0123456789'' ! n]
      else nat_toString (n div 10) @ [''0123456789'' ! (n mod 10)])"

definition Number_toString :: "int \<Rightarrow> string" where
  "Number_toString i = (if i < 0 then CHR ''-'' # nat_toString (nat (- i)) else nat_toString (nat i))"

text \<open>
  The entity built in one round of the loop; \<open>now\<close> is what \<^verbatim>\<open>Date.now()\<close> returns in that
  round. \<^verbatim>\<open>bulkDto.priority || NotificationPriority.NORMAL\<close> tests truthiness of the enum's
  string.
\<close>

definition bulk_entity :: "BulkNotificationDto \<Rightarrow> int \<Rightarrow> string \<Rightarrow> NewNotification" where
  "bulk_entity bulkDto now recipientId =
     (let p0 = (case b_payload bulkDto of None \<Rightarrow> [] | Some p \<Rightarrow> p);
          pr = (case b_priority bulkDto of
                  None \<Rightarrow> NORMAL
                | Some q \<Rightarrow> if truthy_string (NotificationPriority_value q) then q else NORMAL);
          p1 = spread_with p0 ''priority'' (JString (NotificationPriority_value pr));
          p2 = spread_with p1 ''bulk_id'' (JString (''bulk_'' @ Number_toString now))
      in \<lparr> new_recipient_id = recipientId,
           new_type = mapNotificationType (b_type bulkDto),
           new_template = NotificationTemplate_value (b_template bulkDto),
           new_subject = b_subject bulkDto,
           new_content = b_content bulkDto,
           new_payload = p2,
           new_status = Entity_PENDING \<rparr>)"

text \<open>
  The \<^verbatim>\<open>for\<close> loop over \<^verbatim>\<open>foundRecipientIds\<close>. \<^verbatim>\<open>Date.now()\<close> stands in the loop body, so
  it is read once per round: \<open>Date_now k\<close> is the reading in round \<open>k\<close>.
\<close>

fun bulk_entities ::
  "BulkNotificationDto \<Rightarrow> (nat \<Rightarrow> int) \<Rightarrow> nat \<Rightarrow> string list \<Rightarrow> NewNotification list" where
  "bulk_entities bulkDto Date_now k [] = []"
| "bulk_entities bulkDto Date_now k (recipientId # rest) =
     bulk_entity bulkDto (Date_now k) recipientId # bulk_entities bulkDto Date_now (Suc k) rest"

text \<open>
  \<^verbatim>\<open>save\<close> of the array of new entities: one insert each, \<open>uuids k\<close> being the key the
  database generates for the \<open>k\<close>-th of them.
\<close>

fun inserted_rows :: "(nat \<Rightarrow> string) \<Rightarrow> int \<Rightarrow> nat \<Rightarrow> NewNotification list \<Rightarrow> Notification list" where
  "inserted_rows uuids db_now k [] = []"
| "inserted_rows uuids db_now k (e # es) =
     inserted_row (uuids k) db_now e # inserted_rows uuids db_now (Suc k) es"

record BulkResult =
  notifications :: "NotificationResponse list"
  total_created :: nat
  failed_recipients :: "string list"

definition createBulkNotifications ::
  "(nat \<Rightarrow> string) \<Rightarrow> (nat \<Rightarrow> int) \<Rightarrow> int \<Rightarrow> BulkNotificationDto \<Rightarrow> Repos \<Rightarrow> BulkResult \<times> Repos" where
  "createBulkNotifications uuids Date_now db_now bulkDto st =
     (let recipients = find_users_In (b_recipient_ids bulkDto) st;
          foundRecipientIds = map user_id recipients;
          failedRecipientIds =
            filter (\<lambda>i. i \<notin> set foundRecipientIds) (b_recipient_ids bulkDto);
          entities = bulk_entities bulkDto Date_now 0 foundRecipientIds;
          savedNotifications = inserted_rows uuids db_now 0 entities;
          st1 = st\<lparr>notificationRepository := notificationRepository st @ savedNotifications\<rparr>;
          st2 = fold (\<lambda>n. processNotificationAsync (id' n)) savedNotifications st1
      in (\<lparr> notifications = map transformNotificationToDto savedNotifications,
            total_created = length savedNotifications,
            failed_recipients = failedRecipientIds \<rparr>, st2))"

section \<open>Reading, updating and deleting one notification\<close>

text \<open>
  The query \<^verbatim>\<open>where id = :notificationId\<close>, narrowed by
  \<^verbatim>\<open>andWhere recipient_id = :userId\<close> under \<^verbatim>\<open>if (userId)\<close>: a missing or empty user id
  leaves the query unscoped.
\<close>

definition user_scope :: "string option \<Rightarrow> Notification \<Rightarrow> bool" where
  "user_scope userId n =
     (case userId of
        None \<Rightarrow> True
      | Some u \<Rightarrow> if truthy_string u then recipient_id n = u else True)"

definition getOne_scoped :: "string \<Rightarrow> string option \<Rightarrow> Repos \<Rightarrow> Notification option" where
  "getOne_scoped notificationId userId st =
     find (\<lambda>n. id' n = notificationId \<and> user_scope userId n) (notificationRepository st)"

definition getNotificationById ::
  "string \<Rightarrow> string option \<Rightarrow> Repos \<Rightarrow> (Exception + NotificationResponse) \<times> Repos" where
  "getNotificationById notificationId userId st =
     (case getOne_scoped notificationId userId st of
        None \<Rightarrow> (Inl (NotFoundException ''Notification not found or access denied''), st)
      | Some n \<Rightarrow> (Inr (transformNotificationToDto n), st))"

definition set_if :: "'b option \<Rightarrow> ('b \<Rightarrow> 'a \<Rightarrow> 'a) \<Rightarrow> 'a \<Rightarrow> 'a" where
  "set_if field assign n = (case field of None \<Rightarrow> n | Some v \<Rightarrow> assign v n)"

text \<open>
  Whether the columns take the values an update request supplies: the retry count a whole
  number in the range of the integer column, the external id fit for \<^verbatim>\<open>varchar(255)\<close>, the
  error message free of NUL.
\<close>

definition storable :: "UpdateNotificationDto \<Rightarrow> bool" where
  "storable updateDto =
     ((case u_retry_count updateDto of None \<Rightarrow> True | Some q \<Rightarrow> int4_of_number q \<noteq> None)
      \<and> (case u_external_id updateDto of None \<Rightarrow> True | Some s \<Rightarrow> varchar_255 s \<noteq> None)
      \<and> (case u_error_message updateDto of None \<Rightarrow> True | Some s \<Rightarrow> text_value s))"

text \<open>
  The eight \<^verbatim>\<open>if (updateDto.f !== undefined)\<close> assignments, in the order of the source. The
  retry count of the entity is the whole number the request gives when the request is
  storable; when it is not, the save fails and the entity is dropped.
\<close>

definition apply_update :: "UpdateNotificationDto \<Rightarrow> Notification \<Rightarrow> Notification" where
  "apply_update updateDto n0 =
     (let n1 = set_if (u_status updateDto) (\<lambda>v n. n\<lparr>status := mapNotificationStatus v\<rparr>) n0;
          n2 = set_if (u_external_id updateDto) (\<lambda>v n. n\<lparr>external_id := Some v\<rparr>) n1;
          n3 = set_if (u_error_message updateDto) (\<lambda>v n. n\<lparr>error_message := Some v\<rparr>) n2;
          n4 = set_if (u_retry_count updateDto) (\<lambda>v n. n\<lparr>retry_count := \<lfloor>v\<rfloor>\<rparr>) n3;
          n5 = set_if (u_sent_at updateDto) (\<lambda>v n. n\<lparr>sent_at := Some v\<rparr>) n4;
          n6 = set_if (u_delivered_at updateDto) (\<lambda>v n. n\<lparr>delivered_at := Some v\<rparr>) n5;
          n7 = set_if (u_opened_at updateDto) (\<lambda>v n. n\<lparr>opened_at := Some v\<rparr>) n6;
          n8 = set_if (u_clicked_at updateDto) (\<lambda>v n. n\<lparr>clicked_at := Some v\<rparr>) n7
      in n8)"

definition updateNotification ::
  "int \<Rightarrow> string \<Rightarrow> UpdateNotificationDto \<Rightarrow> Repos
     \<Rightarrow> (Exception + NotificationResponse) \<times> Repos" where
  "updateNotification db_now notificationId updateDto st =
     (case findOne_notification notificationId st of
        None \<Rightarrow> (Inl (NotFoundException ''Notification not found''), st)
      | Some notification \<Rightarrow>
          if \<not> storable updateDto then (Inl QueryFailedError, st)
          else (let changed = apply_update updateDto notification;
                    updatedNotification = saved_row db_now changed notification;
                    st1 = st\<lparr>notificationRepository :=
                              save_existing db_now (column_form changed)
                                (notificationRepository st)\<rparr>
                in (Inr (transformNotificationToDto updatedNotification), st1)))"

text \<open>\<^verbatim>\<open>remove(notification)\<close> deletes the row with the entity's primary key.\<close>

definition deleteNotification ::
  "string \<Rightarrow> string option \<Rightarrow> Repos \<Rightarrow> (Exception + unit) \<times> Repos" where
  "deleteNotification notificationId userId st =
     (case getOne_scoped notificationId userId st of
        None \<Rightarrow> (Inl (NotFoundException ''Notification not found or access denied''), st)
      | Some n \<Rightarrow>
          (Inr (), st\<lparr>notificationRepository :=
                        filter (\<lambda>r. id' r \<noteq> id' n) (notificationRepository st)\<rparr>))"

section \<open>Read tracking\<close>

text \<open>
  \<open>now\<close> is the reading of \<^verbatim>\<open>new Date()\<close>. \<^verbatim>\<open>!notification.opened_at\<close> holds exactly when
  the column is null, a \<^verbatim>\<open>Date\<close> object being truthy. \<^verbatim>\<open>save\<close> writes the new update date
  back into the entity it was given, which is the one returned.
\<close>

definition findOne_in_app :: "string \<Rightarrow> string \<Rightarrow> Repos \<Rightarrow> Notification option" where
  "findOne_in_app notificationId userId st =
     find (\<lambda>n. id' n = notificationId \<and> recipient_id n = userId \<and> type' n = Entity_IN_APP)
       (notificationRepository st)"

definition markAsRead ::
  "int \<Rightarrow> int \<Rightarrow> string \<Rightarrow> string \<Rightarrow> Repos \<Rightarrow> (Exception + NotificationResponse) \<times> Repos" where
  "markAsRead now db_now notificationId userId st =
     (case findOne_in_app notificationId userId st of
        None \<Rightarrow> (Inl (NotFoundException ''In-app notification not found''), st)
      | Some notification \<Rightarrow>
          (if opened_at notification = None
           then (let changed = notification\<lparr>opened_at := Some now\<rparr>;
                     saved = saved_row db_now changed notification;
                     st1 = st\<lparr>notificationRepository :=
                               save_existing db_now changed (notificationRepository st)\<rparr>
                 in (Inr (transformNotificationToDto saved), st1))
           else (Inr (transformNotificationToDto notification), st)))"

text \<open>
  The \<^verbatim>\<open>UPDATE ... SET opened_at = :now WHERE recipient_id = :userId AND type = 'in_app' AND
  opened_at IS NULL\<close> of \<^verbatim>\<open>markAllAsRead\<close>; an update through the query builder also sets
  the \<^verbatim>\<open>@UpdateDateColumn\<close>. \<^verbatim>\<open>result.affected || 0\<close> is the number of rows matched.
\<close>

definition markAllAsRead_matches :: "string \<Rightarrow> Notification \<Rightarrow> bool" where
  "markAllAsRead_matches userId n =
     (recipient_id n = userId \<and> type' n = Entity_IN_APP \<and> opened_at n = None)"

definition markAllAsRead :: "int \<Rightarrow> int \<Rightarrow> string \<Rightarrow> Repos \<Rightarrow> nat \<times> Repos" where
  "markAllAsRead now db_now userId st =
     (let hit = markAllAsRead_matches userId
      in (length (filter hit (notificationRepository st)),
          st\<lparr>notificationRepository :=
               map (\<lambda>n. if hit n then n\<lparr>opened_at := Some now, updated_at := db_now\<rparr> else n)
                 (notificationRepository st)\<rparr>))"

section \<open>Retry\<close>

text \<open>
  The save of the retried entity fails when the incremented retry count no longer fits the
  integer column; the exception leaves \<^verbatim>\<open>retryNotification\<close> before the timer is armed.
\<close>

definition retryNotification ::
  "int \<Rightarrow> string \<Rightarrow> Repos \<Rightarrow> (Exception + NotificationResponse) \<times> Repos" where
  "retryNotification db_now notificationId st =
     (case findOne_notification notificationId st of
        None \<Rightarrow> (Inl (NotFoundException ''Notification not found''), st)
      | Some notification \<Rightarrow>
          (if status notification \<noteq> Entity_FAILED
           then (Inl (BadRequestException ''Only failed notifications can be retried''), st)
           else if \<not> int4 (retry_count notification + 1) then (Inl QueryFailedError, st)
           else (let changed = notification\<lparr>status := Entity_PENDING,
                                             retry_count := retry_count notification + 1,
                                             error_message := None\<rparr>;
                     updatedNotification = saved_row db_now changed notification;
                     st1 = st\<lparr>notificationRepository :=
                               save_existing db_now changed (notificationRepository st)\<rparr>;
                     st2 = processNotificationAsync (id' updatedNotification) st1
                 in (Inr (transformNotificationToDto updatedNotification), st2))))"

section \<open>Statistics\<close>

subsection \<open>IEEE 754 double precision\<close>

text \<open>
  A finite double is the rational it denotes. \<open>binade x\<close> is the exponent \<open>e\<close> with
  \<open>2 ^ e \<le> \<bar>x\<bar> < 2 ^ (e + 1)\<close>, and \<open>double x\<close> the double nearest to \<open>x\<close>: \<open>x\<close> rounded to a
  multiple of \<open>2 ^ (e - 52)\<close>, a tie going to the even multiple. Every arithmetic operation
  of JavaScript returns the \<open>double\<close> of the exact result. The range of the exponent is not
  modelled: the numbers of the statistics stay far from \<open>2 ^ -1022\<close> and \<open>2 ^ 1024\<close>.
\<close>

definition two_powi :: "int \<Rightarrow> rat" where
  "two_powi e = (if 0 \<le> e then 2 ^ nat e else 1 / 2 ^ nat (- e))"

definition binade :: "rat \<Rightarrow> int" where
  "binade x =
     (if 1 \<le> \<bar>x\<bar> then bitlen \<lfloor>\<bar>x\<bar>\<rfloor> - 1 else - bitlen (\<lceil>1 / \<bar>x\<bar>\<rceil> - 1))"

definition round_half_even :: "rat \<Rightarrow> int" where
  "round_half_even m =
     (let f = \<lfloor>m\<rfloor>; r = m - of_int f
      in if r < 1 / 2 then f else if 1 / 2 < r then f + 1 else if even f then f else f + 1)"

definition double :: "rat \<Rightarrow> rat" where
  "double x =
     (if x = 0 then 0
      else let ulp = two_powi (binade x - 52)
           in of_int (round_half_even (x / ulp)) * ulp)"

subsection \<open>The query and its result\<close>

text \<open>
  The rates are doubles computed from integer counts: a division, a multiplication by 100,
  and the rounding \<^verbatim>\<open>Math.round(x * 100) / 100\<close>, each operation rounding to the nearest
  double.
\<close>

record NotificationStats =
  total_notifications :: int
  by_type :: "EntityNotificationType \<rightharpoonup> int"
  by_status :: "EntityNotificationStatus \<rightharpoonup> int"
  by_template :: "string \<rightharpoonup> int"
  delivery_rate :: rat
  open_rate :: rat
  click_rate :: rat
  recent_notifications :: int
  failed_notifications :: int
  avg_delivery_time :: rat

text \<open>
  \<^verbatim>\<open>getCount\<close> of a query over the table, under the scope
  \<^verbatim>\<open>userId ? 'notification.recipient_id = :userId' : '1=1'\<close>.
\<close>

definition getCount :: "string option \<Rightarrow> (Notification \<Rightarrow> bool) \<Rightarrow> Repos \<Rightarrow> int" where
  "getCount userId cond st =
     int (length (filter (\<lambda>n. cond n \<and> user_scope userId n) (notificationRepository st)))"

text \<open>
  \<^verbatim>\<open>SELECT col, COUNT(*) ... GROUP BY col\<close> folded into an object by \<^verbatim>\<open>reduce\<close>: a key is
  present exactly when some row of the scope has it.
\<close>

definition group_counts :: "string option \<Rightarrow> (Notification \<Rightarrow> 'k) \<Rightarrow> Repos \<Rightarrow> ('k \<rightharpoonup> int)" where
  "group_counts userId col st =
     (\<lambda>k. let c = getCount userId (\<lambda>n. col n = k) st in if c = 0 then None else Some c)"

text \<open>\<^verbatim>\<open>obj[key] || 0\<close>: 0 for a missing key and for a falsy count.\<close>

definition or_zero :: "int option \<Rightarrow> int" where
  "or_zero v = (case v of None \<Rightarrow> 0 | Some c \<Rightarrow> if c \<noteq> 0 then c else 0)"

text \<open>
  \<^verbatim>\<open>Math.round\<close> gives the integer nearest to the double it is applied to, a half going
  upwards; it is exact. \<open>round_100\<close> is \<^verbatim>\<open>Math.round(x * 100) / 100\<close>.
\<close>

definition Math_round :: "rat \<Rightarrow> int" where
  "Math_round x = \<lfloor>x + 1 / 2\<rfloor>"

definition round_100 :: "rat \<Rightarrow> rat" where
  "round_100 x = double (of_int (Math_round (double (x * 100))) / 100)"

text \<open>
  \<open>now\<close> is the reading of \<^verbatim>\<open>new Date()\<close>; \<^verbatim>\<open>setHours(getHours() - 24)\<close> moves it back by
  24 hours (86400000 ms, daylight-saving shifts of the local zone left out). The average
  delivery time is SQL's \<^verbatim>\<open>AVG\<close> of the seconds between the two dates, null over no rows;
  \<^verbatim>\<open>parseFloat(...) || 0\<close> reads the double nearest to it and turns null into 0.
\<close>

definition avg_delivery_seconds :: "string option \<Rightarrow> Repos \<Rightarrow> rat" where
  "avg_delivery_seconds userId st =
     (let ds = filter (\<lambda>n. delivered_at n \<noteq> None \<and> user_scope userId n) (notificationRepository st)
      in if ds = [] then 0
         else double (sum_list (map (\<lambda>n. of_int (the (delivered_at n) - created_at n) / 1000) ds)
                / of_nat (length ds)))"

definition getNotificationStats :: "int \<Rightarrow> string option \<Rightarrow> Repos \<Rightarrow> NotificationStats" where
  "getNotificationStats now userId st =
     (let totalNotifications = getCount userId (\<lambda>n. True) st;
          byType = group_counts userId type' st;
          byStatus = group_counts userId status st;
          byTemplate = group_counts userId template st;
          deliveredCount = or_zero (byStatus Entity_DELIVERED);
          sentCount = or_zero (byStatus Entity_SENT);
          totalSent = deliveredCount + sentCount + or_zero (byStatus Entity_FAILED);
          deliveryRate =
            (if totalSent > 0
             then double (double (of_int (deliveredCount + sentCount) / of_int totalSent) * 100)
             else 0);
          openedCount = getCount userId (\<lambda>n. opened_at n \<noteq> None) st;
          openRate =
            (if deliveredCount + sentCount > 0
             then double (double (of_int openedCount / of_int (deliveredCount + sentCount)) * 100)
             else 0);
          clickedCount = getCount userId (\<lambda>n. clicked_at n \<noteq> None) st;
          clickRate =
            (if openedCount > 0
             then double (double (of_int clickedCount / of_int openedCount) * 100) else 0);
          twentyFourHoursAgo = now - 86400000;
          recentNotifications = getCount userId (\<lambda>n. created_at n \<ge> twentyFourHoursAgo) st;
          failedNotifications = or_zero (byStatus Entity_FAILED);
          avgDeliveryTime = avg_delivery_seconds userId st
      in \<lparr> total_notifications = totalNotifications,
           by_type = byType,
           by_status = byStatus,
           by_template = byTemplate,
           delivery_rate = round_100 deliveryRate,
           open_rate = round_100 openRate,
           click_rate = round_100 clickRate,
           recent_notifications = recentNotifications,
           failed_notifications = failedNotifications,
           avg_delivery_time = round_100 avgDeliveryTime \<rparr>)"

section \<open>The primary key\<close>

text \<open>
  \<^verbatim>\<open>id\<close> is the primary key of the \<^verbatim>\<open>notifications\<close> table
  (\<^verbatim>\<open>@PrimaryGeneratedColumn('uuid')\<close>) and of the \<^verbatim>\<open>users\<close> table
  (\<^verbatim>\<open>@PrimaryColumn('uuid')\<close>): the database holds no two rows with the same key.
\<close>

definition primary_key_unique :: "Repos \<Rightarrow> bool" where
  "primary_key_unique st =
     (distinct (map id' (notificationRepository st)) \<and> distinct (map user_id (userRepository st)))"

section \<open>Sequences of operations\<close>

text \<open>
  The steps that write to the \<^verbatim>\<open>notifications\<close> table: the service calls, and the two timer
  callbacks of \<^verbatim>\<open>processNotificationAsync\<close>, each with the values the environment supplies
  to it (for a timer, which of the armed ones fires), and the state each leaves behind.
\<close>

datatype Operation =
    Create string int CreateNotificationDto
  | CreateBulk "nat \<Rightarrow> string" "nat \<Rightarrow> int" int BulkNotificationDto
  | Update int string UpdateNotificationDto
  | Retry int string
  | MarkAsRead int int string string
  | MarkAllAsRead int int string
  | DeliveryTimer nat int int
  | ConfirmationTimer nat int int

fun perform :: "Operation \<Rightarrow> Repos \<Rightarrow> Repos" where
  "perform (Create uuid db_now dto) st = snd (createNotification uuid db_now dto st)"
| "perform (CreateBulk uuids clock db_now dto) st =
     snd (createBulkNotifications uuids clock db_now dto st)"
| "perform (Update db_now nid dto) st = snd (updateNotification db_now nid dto st)"
| "perform (Retry db_now nid) st = snd (retryNotification db_now nid st)"
| "perform (MarkAsRead now db_now nid uid) st = snd (markAsRead now db_now nid uid st)"
| "perform (MarkAllAsRead now db_now uid) st = snd (markAllAsRead now db_now uid st)"
| "perform (DeliveryTimer k now db_now) st = fire_delivery_timer k now db_now st"
| "perform (ConfirmationTimer k now db_now) st = fire_confirmation_timer k now db_now st"

text \<open>The retry count observed for a notification id: that of the row with the id, if any.\<close>

definition retry_count_of :: "string \<Rightarrow> Repos \<Rightarrow> int option" where
  "retry_count_of nid st = map_option retry_count (findOne_notification nid st)"

text \<open>
  The keys the database generates are new: not the key of a stored row, and different for
  the rows of one batch.
\<close>

fun fresh_keys :: "Operation \<Rightarrow> Repos \<Rightarrow> bool" where
  "fresh_keys (Create uuid db_now dto) st = (uuid \<notin> id' ` set (notificationRepository st))"
| "fresh_keys (CreateBulk uuids clock db_now dto) st =
     (let k = length (find_users_In (b_recipient_ids dto) st)
      in distinct (map uuids [0..<k])
         \<and> list_all (\<lambda>j. uuids j \<notin> id' ` set (notificationRepository st)) [0..<k])"
| "fresh_keys _ st = True"

text \<open>An update request that names a retry count writes that number into the row.\<close>

fun names_retry_count :: "Operation \<Rightarrow> bool" where
  "names_retry_count (Update db_now nid dto) = (u_retry_count dto \<noteq> None)"
| "names_retry_count _ = False"

text \<open>
  The entity held by the confirmation timer that fires is current in its retry count: the
  row still has the retry count it was loaded with, no retry having gone through since.
\<close>

fun holds_current_count :: "Operation \<Rightarrow> Repos \<Rightarrow> bool" where
  "holds_current_count (ConfirmationTimer k now db_now) st =
     (if k < length (confirmations st)
      then (case retry_count_of (id' (confirmations st ! k)) st of
              None \<Rightarrow> True
            | Some c \<Rightarrow> c = retry_count (confirmations st ! k))
      else True)"
| "holds_current_count _ st = True"

text \<open>
  A run of steps in which every generated key is new, no update request names a retry
  count, and every confirmation timer that fires holds an entity current in its retry count.
\<close>

fun counting_run :: "Operation list \<Rightarrow> Repos \<Rightarrow> bool" where
  "counting_run [] st = True"
| "counting_run (op # ops) st =
     (fresh_keys op st \<and> \<not> names_retry_count op \<and> holds_current_count op st
      \<and> counting_run ops (perform op st))"

section \<open>The state machine and the rates as the specification words them\<close>

text \<open>
  The edges of the delivery state machine as the specification lists them: pending to sent,
  pending to failed, sent to delivered, sent to bounced, failed to pending.
\<close>

definition spec_valid_transition :: "EntityNotificationStatus \<Rightarrow> EntityNotificationStatus \<Rightarrow> bool" where
  "spec_valid_transition a b =
     ((a, b) \<in> set
       [(Entity_PENDING, Entity_SENT), (Entity_PENDING, Entity_FAILED),
        (Entity_SENT, Entity_DELIVERED), (Entity_SENT, Entity_BOUNCED),
        (Entity_FAILED, Entity_PENDING)])"

text \<open>
  The specification's formulas. A rate is a quotient of two counts as a percentage, 0 when
  the denominator is 0. The counts are taken over the notifications in scope: those of the
  recipient when a recipient is given, all of them otherwise. A rate rounded to two decimal
  places is a hundredth nearest to it, that is, one within 0.005 of it; the specification
  does not say which way a half of a hundredth goes.
\<close>

definition spec_percentage :: "int \<Rightarrow> int \<Rightarrow> rat" where
  "spec_percentage a b = (if b = 0 then 0 else of_int a / of_int b * 100)"

text \<open>For comparison: the rounding to two decimal places in which a half goes upwards.\<close>

definition half_up_two_decimals :: "rat \<Rightarrow> rat" where
  "half_up_two_decimals x = of_int \<lfloor>x * 100 + 1 / 2\<rfloor> / 100"

definition spec_in_scope :: "string option \<Rightarrow> Notification \<Rightarrow> bool" where
  "spec_in_scope scope n =
     (case scope of None \<Rightarrow> True | Some u \<Rightarrow> u = [] \<or> recipient_id n = u)"

definition spec_count :: "string option \<Rightarrow> (Notification \<Rightarrow> bool) \<Rightarrow> Repos \<Rightarrow> int" where
  "spec_count scope what st =
     (\<Sum>n\<leftarrow>notificationRepository st. if spec_in_scope scope n \<and> what n then 1 else 0)"

definition spec_delivered :: "string option \<Rightarrow> Repos \<Rightarrow> int" where
  "spec_delivered scope st = spec_count scope (\<lambda>n. status n = Entity_DELIVERED) st"

definition spec_sent :: "string option \<Rightarrow> Repos \<Rightarrow> int" where
  "spec_sent scope st = spec_count scope (\<lambda>n. status n = Entity_SENT) st"

definition spec_failed :: "string option \<Rightarrow> Repos \<Rightarrow> int" where
  "spec_failed scope st = spec_count scope (\<lambda>n. status n = Entity_FAILED) st"



section \<open>Example data\<close>

text \<open>
  A small database on which the operations are run: the users \<open>A\<close> and \<open>C\<close> exist, \<open>B\<close>
  does not; \<open>A\<close> has a delivered and a sent in-app notification, the second one opened and
  clicked, and \<open>C\<close> has a failed e-mail.
\<close>

definition example_row ::
  "string \<Rightarrow> string \<Rightarrow> EntityNotificationType \<Rightarrow> EntityNotificationStatus \<Rightarrow> int \<Rightarrow> Notification" where
  "example_row nid rid ty st rc =
     \<lparr> id' = nid, recipient_id = rid, type' = ty, template = ''welcome'',
       subject = ''Hello'', content = ''Welcome aboard'', payload = [],
       status = st, external_id = None, error_message = None, retry_count = rc,
       sent_at = None, delivered_at = None, opened_at = None, clicked_at = None,
       created_at = 1000, updated_at = 1000 \<rparr>"

definition example_users :: "User list" where
  "example_users = [\<lparr>user_id = ''A'', email = ''a@example.org''\<rparr>,
                    \<lparr>user_id = ''C'', email = ''c@example.org''\<rparr>]"

definition example_store :: Repos where
  "example_store =
     \<lparr> notificationRepository =
         [example_row ''n1'' ''A'' Entity_IN_APP Entity_DELIVERED 3,
          example_row ''n2'' ''C'' Entity_EMAIL Entity_FAILED 0,
          (example_row ''n3'' ''A'' Entity_IN_APP Entity_SENT 0)
            \<lparr>opened_at := Some 1500, clicked_at := Some 1600\<rparr>],
       userRepository = example_users,
       timers = [],
       confirmations = [] \<rparr>"



text \<open>An update request that names no field.\<close>

definition empty_update :: UpdateNotificationDto where
  "empty_update =
     \<lparr> u_status = None, u_external_id = None, u_error_message = None, u_retry_count = None,
       u_sent_at = None, u_delivered_at = None, u_opened_at = None, u_clicked_at = None \<rparr>"

text \<open>
  A bulk request to \<open>A\<close>, \<open>B\<close> and \<open>C\<close>, the keys the database generates for the new rows, and
  two clocks: one that stands still during the request and one that advances by a
  millisecond from one round of the loop to the next.
\<close>

definition example_bulk :: BulkNotificationDto where
  "example_bulk =
     \<lparr> b_recipient_ids = [''A'', ''B'', ''C''], b_type = EMAIL, b_template = DEADLINE_REMINDER,
       b_subject = ''Reminder'', b_content = ''24 hours left'', b_payload = None,
       b_priority = None \<rparr>"

definition example_uuids :: "nat \<Rightarrow> string" where
  "example_uuids k = ''new-'' @ nat_toString k"

definition frozen_clock :: "nat \<Rightarrow> int" where
  "frozen_clock k = 1700000000000"

definition ticking_clock :: "nat \<Rightarrow> int" where
  "ticking_clock k = 1700000000000 + int k"


text \<open>
  A run in which the retry comes between the two timers of the earlier attempt: \<open>n2\<close> is
  retried, its first timer fires, it is reported failed and retried again, and only then
  the second timer fires.
\<close>

definition overtaken_run :: "Operation list" where
  "overtaken_run =
     [Retry 2000 ''n2'',
      DeliveryTimer 0 4000 4001,
      Update 4300 ''n2'' (empty_update\<lparr>u_status := Some FAILED, u_error_message := Some ''timeout''\<rparr>),
      Retry 4600 ''n2'',
      ConfirmationTimer 0 5000 5001]"

text \<open>A database whose one notification has failed and has the largest retry count the column holds.\<close>

definition saturated_store :: Repos where
  "saturated_store =
     \<lparr> notificationRepository = [example_row ''n4'' ''C'' Entity_EMAIL Entity_FAILED 2147483647],
       userRepository = example_users,
       timers = [],
       confirmations = [] \<rparr>"

text \<open>A database of 23 sent and 137 failed notifications.\<close>

definition sent_23_failed_137 :: Repos where
  "sent_23_failed_137 =
     \<lparr> notificationRepository =
         map (\<lambda>k. example_row (nat_toString k) ''A'' Entity_EMAIL Entity_SENT 0) [0..<23]
         @ map (\<lambda>k. example_row (nat_toString k) ''C'' Entity_EMAIL Entity_FAILED 0) [23..<160],
       userRepository = example_users,
       timers = [],
       confirmations = [] \<rparr>"

section \<open>Properties of single dispatch\<close>











section \<open>The repository operations\<close>

lemma saved_row_fields:
  "id' (saved_row t e s) = id' e"
  "recipient_id (saved_row t e s) = recipient_id e"
  "type' (saved_row t e s) = type' e"
  "template (saved_row t e s) = template e"
  "subject (saved_row t e s) = subject e"
  "content (saved_row t e s) = content e"
  "payload (saved_row t e s) = payload e"
  "status (saved_row t e s) = status e"
  "external_id (saved_row t e s) = external_id e"
  "error_message (saved_row t e s) = error_message e"
  "retry_count (saved_row t e s) = retry_count e"
  "sent_at (saved_row t e s) = sent_at e"
  "delivered_at (saved_row t e s) = delivered_at e"
  "opened_at (saved_row t e s) = opened_at e"
  "clicked_at (saved_row t e s) = clicked_at e"
  "created_at (saved_row t e s) = created_at e"
  by (simp_all add: saved_row_def)

lemma findOne_notification_SomeD:
  "findOne_notification nid st = Some n \<Longrightarrow> id' n = nid \<and> n \<in> set (notificationRepository st)"
  by (auto simp add: findOne_notification_def find_Some_iff)

lemma find_id_save_existing:
  "find (\<lambda>n. id' n = nid) rows = Some n \<Longrightarrow> id' e = nid \<Longrightarrow>
   find (\<lambda>n. id' n = nid) (save_existing t e rows) = Some (saved_row t e n)"
  by (induction rows) (auto simp add: save_existing_def saved_row_fields split: if_splits)


lemma findOne_notification_timers [simp]:
  "findOne_notification nid (processNotificationAsync k st) = findOne_notification nid st"
  by (simp add: findOne_notification_def processNotificationAsync_def)

lemma findOne_notification_saved:
  "findOne_notification nid st = Some n \<Longrightarrow> id' e = nid \<Longrightarrow>
   findOne_notification nid (st\<lparr>notificationRepository := save_existing t e (notificationRepository st)\<rparr>)
     = Some (saved_row t e n)"
  by (simp add: findOne_notification_def find_id_save_existing)

section \<open>Properties of retry\<close>

lemma retryNotification_found_failed:
  assumes "findOne_notification nid st = Some n" and "status n = Entity_FAILED"
    and "int4 (retry_count n + 1)"
  shows "retryNotification db_now nid st =
      (Inr (transformNotificationToDto
              (saved_row db_now
                 (n\<lparr>status := Entity_PENDING, retry_count := retry_count n + 1,
                     error_message := None\<rparr>) n)),
       processNotificationAsync nid
         (st\<lparr>notificationRepository :=
               save_existing db_now
                 (n\<lparr>status := Entity_PENDING, retry_count := retry_count n + 1,
                     error_message := None\<rparr>)
                 (notificationRepository st)\<rparr>))"
proof -
  from assms(1) have "id' n = nid" using findOne_notification_SomeD by blast
  with assms show ?thesis
    by (simp add: retryNotification_def Let_def saved_row_fields)
qed

text \<open>
  Claim C2, as the code has it. \<^verbatim>\<open>retryNotification\<close> fails with the not-found error when
  no row has the id; it fails with the bad-request error
  \<^verbatim>\<open>Only failed notifications can be retried\<close> when the row's status is not \<^verbatim>\<open>failed\<close>; on a
  failed row whose retry count plus one still fits the integer column (the count is below
  2147483647) it succeeds: the returned object and the stored row have status \<^verbatim>\<open>pending\<close>,
  the retry count of the row plus one and no error message, and a delivery timer is armed
  for the id; on a failed row whose retry count is 2147483647 the save is refused and the
  call fails with \<^verbatim>\<open>QueryFailedError\<close>. Every failure returns the state as it was.
\<close>

theorem retryNotification_within_int4:
  "(findOne_notification nid st = None \<longrightarrow>
      retryNotification db_now nid st = (Inl (NotFoundException ''Notification not found''), st))
   \<and> (\<forall>n. findOne_notification nid st = Some n \<and> status n \<noteq> Entity_FAILED \<longrightarrow>
      retryNotification db_now nid st
        = (Inl (BadRequestException ''Only failed notifications can be retried''), st))
   \<and> (\<forall>n. findOne_notification nid st = Some n \<and> status n = Entity_FAILED
          \<and> - 2147483648 \<le> retry_count n + 1 \<and> retry_count n < 2147483647 \<longrightarrow>
      (\<exists>r n'. fst (retryNotification db_now nid st) = Inr r
         \<and> r_status r = PENDING \<and> r_retry_count r = retry_count n + 1 \<and> r_error_message r = None
         \<and> findOne_notification nid (snd (retryNotification db_now nid st)) = Some n'
         \<and> status n' = Entity_PENDING \<and> retry_count n' = retry_count n + 1
         \<and> error_message n' = None
         \<and> timers (snd (retryNotification db_now nid st)) = timers st @ [nid]))
   \<and> (\<forall>n. findOne_notification nid st = Some n \<and> status n = Entity_FAILED
          \<and> 2147483647 \<le> retry_count n \<longrightarrow>
      retryNotification db_now nid st = (Inl QueryFailedError, st))"
proof (intro conjI allI impI)
  assume "findOne_notification nid st = None"
  then show "retryNotification db_now nid st = (Inl (NotFoundException ''Notification not found''), st)"
    by (simp add: retryNotification_def)
next
  fix n
  assume "findOne_notification nid st = Some n \<and> status n \<noteq> Entity_FAILED"
  then show "retryNotification db_now nid st
        = (Inl (BadRequestException ''Only failed notifications can be retried''), st)"
    by (simp add: retryNotification_def)
next
  fix n
  assume a: "findOne_notification nid st = Some n \<and> status n = Entity_FAILED
          \<and> - 2147483648 \<le> retry_count n + 1 \<and> retry_count n < 2147483647"
  define changed where
    "changed = n\<lparr>status := Entity_PENDING, retry_count := retry_count n + 1, error_message := None\<rparr>"
  from a have fits: "int4 (retry_count n + 1)" by (simp add: int4_def)
  from a have idn: "id' n = nid" using findOne_notification_SomeD by blast
  then have idc: "id' changed = nid" by (simp add: changed_def)
  have res: "retryNotification db_now nid st =
      (Inr (transformNotificationToDto (saved_row db_now changed n)),
       processNotificationAsync nid
         (st\<lparr>notificationRepository := save_existing db_now changed (notificationRepository st)\<rparr>))"
    using a fits retryNotification_found_failed [of nid st n db_now] by (simp add: changed_def)
  have stored: "findOne_notification nid (snd (retryNotification db_now nid st))
                  = Some (saved_row db_now changed n)"
    using a idc by (simp add: res findOne_notification_saved)
  have tm: "timers (snd (retryNotification db_now nid st)) = timers st @ [nid]"
    by (simp add: res processNotificationAsync_def)
  show "\<exists>r n'. fst (retryNotification db_now nid st) = Inr r
         \<and> r_status r = PENDING \<and> r_retry_count r = retry_count n + 1 \<and> r_error_message r = None
         \<and> findOne_notification nid (snd (retryNotification db_now nid st)) = Some n'
         \<and> status n' = Entity_PENDING \<and> retry_count n' = retry_count n + 1
         \<and> error_message n' = None
         \<and> timers (snd (retryNotification db_now nid st)) = timers st @ [nid]"
    using stored tm
    by (simp add: res transformNotificationToDto_def saved_row_fields changed_def)
next
  fix n
  assume "findOne_notification nid st = Some n \<and> status n = Entity_FAILED
          \<and> 2147483647 \<le> retry_count n"
  then show "retryNotification db_now nid st = (Inl QueryFailedError, st)"
    by (simp add: retryNotification_def int4_def)
qed

lemma example_findOne:
  "findOne_notification ''n1'' example_store
     = Some (example_row ''n1'' ''A'' Entity_IN_APP Entity_DELIVERED 3)"
  "findOne_notification ''n2'' example_store
     = Some (example_row ''n2'' ''C'' Entity_EMAIL Entity_FAILED 0)"
  "findOne_notification ''zz'' example_store = None"
  "findOne_notification ''n4'' saturated_store
     = Some (example_row ''n4'' ''C'' Entity_EMAIL Entity_FAILED 2147483647)"
  by (simp_all add: findOne_notification_def example_store_def saturated_store_def example_row_def)

lemma example_row_fields:
  "id' (example_row nid rid ty s rc) = nid"
  "recipient_id (example_row nid rid ty s rc) = rid"
  "status (example_row nid rid ty s rc) = s"
  "retry_count (example_row nid rid ty s rc) = rc"
  by (simp_all add: example_row_def)

theorem retryNotification_within_int4_witness:
  "retryNotification 2000 ''zz'' example_store
      = (Inl (NotFoundException ''Notification not found''), example_store)
   \<and> retryNotification 2000 ''n1'' example_store
      = (Inl (BadRequestException ''Only failed notifications can be retried''), example_store)
   \<and> (\<exists>r n'. fst (retryNotification 2000 ''n2'' example_store) = Inr r
         \<and> r_status r = PENDING \<and> r_retry_count r = 1 \<and> r_error_message r = None
         \<and> findOne_notification ''n2'' (snd (retryNotification 2000 ''n2'' example_store)) = Some n'
         \<and> status n' = Entity_PENDING \<and> retry_count n' = 1 \<and> error_message n' = None)
   \<and> retryNotification 2000 ''n4'' saturated_store = (Inl QueryFailedError, saturated_store)"
proof -
  let ?n2 = "example_row ''n2'' ''C'' Entity_EMAIL Entity_FAILED 0"
  let ?n4 = "example_row ''n4'' ''C'' Entity_EMAIL Entity_FAILED 2147483647"
  have s1: "status (example_row ''n1'' ''A'' Entity_IN_APP Entity_DELIVERED 3) \<noteq> Entity_FAILED"
    by (simp add: example_row_fields)
  have s2: "status ?n2 = Entity_FAILED" "retry_count ?n2 = 0"
    "- 2147483648 \<le> retry_count ?n2 + 1" "retry_count ?n2 < 2147483647"
    by (simp_all add: example_row_fields)
  have s4: "status ?n4 = Entity_FAILED" "2147483647 \<le> retry_count ?n4"
    by (simp_all add: example_row_fields)
  from retryNotification_within_int4 [of "''zz''" example_store 2000] example_findOne(3)
  have a: "retryNotification 2000 ''zz'' example_store
      = (Inl (NotFoundException ''Notification not found''), example_store)" by blast
  from retryNotification_within_int4 [of "''n1''" example_store 2000] example_findOne(1) s1
  have b: "retryNotification 2000 ''n1'' example_store
      = (Inl (BadRequestException ''Only failed notifications can be retried''), example_store)"
    by blast
  from retryNotification_within_int4 [of "''n2''" example_store 2000] example_findOne(2) s2(1,3,4)
  have "\<exists>r n'. fst (retryNotification 2000 ''n2'' example_store) = Inr r
         \<and> r_status r = PENDING \<and> r_retry_count r = retry_count ?n2 + 1
         \<and> r_error_message r = None
         \<and> findOne_notification ''n2'' (snd (retryNotification 2000 ''n2'' example_store)) = Some n'
         \<and> status n' = Entity_PENDING \<and> retry_count n' = retry_count ?n2 + 1
         \<and> error_message n' = None
         \<and> timers (snd (retryNotification 2000 ''n2'' example_store)) = timers example_store @ [''n2'']"
    by blast
  then have c: "\<exists>r n'. fst (retryNotification 2000 ''n2'' example_store) = Inr r
         \<and> r_status r = PENDING \<and> r_retry_count r = 1 \<and> r_error_message r = None
         \<and> findOne_notification ''n2'' (snd (retryNotification 2000 ''n2'' example_store)) = Some n'
         \<and> status n' = Entity_PENDING \<and> retry_count n' = 1 \<and> error_message n' = None"
    unfolding s2(2) by auto
  from retryNotification_within_int4 [of "''n4''" saturated_store 2000] example_findOne(4) s4
  have d: "retryNotification 2000 ''n4'' saturated_store = (Inl QueryFailedError, saturated_store)"
    by blast
  from a b c d show ?thesis by blast
qed

text \<open>
  The claim C2 as stated fails: the notification \<open>n4\<close> has status \<^verbatim>\<open>failed\<close>, yet its retry
  does not succeed; with retry count 2147483647 the call fails and the row stays failed.
\<close>

theorem retryNotification_refused_at_int4_max:
  "map_option status (findOne_notification ''n4'' saturated_store) = Some Entity_FAILED
   \<and> retry_count_of ''n4'' saturated_store = Some 2147483647
   \<and> retryNotification 2000 ''n4'' saturated_store = (Inl QueryFailedError, saturated_store)"
  by (simp add: retry_count_of_def example_findOne(4) example_row_fields
        retryNotification_def int4_def)

section \<open>Properties of the status update\<close>

lemma set_if_preserves:
  "(\<And>v m. f (assign v m) = f m) \<Longrightarrow> f (set_if fld assign n) = f n"
  by (cases fld) (simp_all add: set_if_def)

lemma set_if_Some: "set_if (Some v) assign n = assign v n"
  by (simp add: set_if_def)

lemma set_if_None: "set_if None assign n = n"
  by (simp add: set_if_def)

lemma apply_update_id: "id' (apply_update dto n) = id' n"
  by (simp add: apply_update_def Let_def set_if_preserves [where f = id'])

lemma apply_update_status:
  "status (apply_update dto n)
     = (case u_status dto of None \<Rightarrow> status n | Some s \<Rightarrow> mapNotificationStatus s)"
  by (cases "u_status dto")
     (simp_all add: apply_update_def Let_def set_if_preserves [where f = status]
        set_if_Some set_if_None)


lemma column_form_fields:
  "id' (column_form n) = id' n"
  "status (column_form n) = status n"
  "retry_count (column_form n) = retry_count n"
  by (simp_all add: column_form_def)

lemma mapEntityNotificationStatusToDto_inverse:
  "mapEntityNotificationStatusToDto (mapNotificationStatus s) = s"
  by (cases s) simp_all

text \<open>What the columns take, spelled out.\<close>

lemma int4_of_number_Some_iff:
  "int4_of_number q \<noteq> None \<longleftrightarrow>
   (\<exists>i. q = of_int i \<and> - 2147483648 \<le> i \<and> i \<le> 2147483647)"
proof
  assume a: "int4_of_number q \<noteq> None"
  have b: "of_int \<lfloor>q\<rfloor> = q \<and> int4 \<lfloor>q\<rfloor>"
  proof (rule ccontr)
    assume "\<not> (of_int \<lfloor>q\<rfloor> = q \<and> int4 \<lfloor>q\<rfloor>)"
    then have "int4_of_number q = None" unfolding int4_of_number_def by (simp only: if_False)
    with a show False by simp
  qed
  then have "q = of_int \<lfloor>q\<rfloor>" by (simp only:)
  with b show "\<exists>i. q = of_int i \<and> - 2147483648 \<le> i \<and> i \<le> 2147483647"
    unfolding int4_def by blast
next
  assume "\<exists>i. q = of_int i \<and> - 2147483648 \<le> i \<and> i \<le> 2147483647"
  then obtain i where i: "q = of_int i" "- 2147483648 \<le> i" "i \<le> 2147483647" by blast
  from i(1) have "\<lfloor>q\<rfloor> = i" by simp
  with i show "int4_of_number q \<noteq> None"
    by (simp add: int4_of_number_def int4_def)
qed

lemma storable_iff:
  "storable dto \<longleftrightarrow>
     (\<forall>q. u_retry_count dto = Some q \<longrightarrow>
        (\<exists>i. q = of_int i \<and> - 2147483648 \<le> i \<and> i \<le> 2147483647))
   \<and> (\<forall>s. u_external_id dto = Some s \<longrightarrow>
        CHR 0x00 \<notin> set s \<and> (\<forall>c \<in> set (drop 255 s). c = CHR '' ''))
   \<and> (\<forall>s. u_error_message dto = Some s \<longrightarrow> CHR 0x00 \<notin> set s)"
  by (cases "u_retry_count dto"; cases "u_external_id dto"; cases "u_error_message dto")
     (simp_all add: storable_def int4_of_number_Some_iff varchar_255_def text_value_def
        list_all_iff del: not_None_eq)

lemma updateNotification_found:
  "findOne_notification nid st = Some n \<Longrightarrow> storable dto \<Longrightarrow>
   updateNotification db_now nid dto st =
     (Inr (transformNotificationToDto (saved_row db_now (apply_update dto n) n)),
      st\<lparr>notificationRepository :=
           save_existing db_now (column_form (apply_update dto n)) (notificationRepository st)\<rparr>)"
  by (simp add: updateNotification_def Let_def)

lemma updateNotification_refused:
  "findOne_notification nid st = Some n \<Longrightarrow> \<not> storable dto \<Longrightarrow>
   updateNotification db_now nid dto st = (Inl QueryFailedError, st)"
  by (simp add: updateNotification_def)

text \<open>
  Claim C1, as the code has it. \<^verbatim>\<open>updateNotification\<close> compares the requested status with
  nothing: for every stored notification and every request that names a status and whose
  values the columns take, the call succeeds, and the returned object and the stored row
  carry the requested status, whatever the status was before. The call fails with the
  not-found error for an id no row has, and with \<^verbatim>\<open>QueryFailedError\<close> for a request with a
  value its column does not take (a retry count that is not a whole number from
  -2147483648 to 2147483647, an external id longer than 255 characters otherwise than by
  spaces, a NUL character); both failures leave the state as it was. No failure depends on
  the status the notification has or on the status requested.
\<close>

theorem updateNotification_checks_no_transition:
  "(findOne_notification nid st = None \<longrightarrow>
      updateNotification db_now nid dto st = (Inl (NotFoundException ''Notification not found''), st))
   \<and> (\<forall>n. findOne_notification nid st = Some n \<and> \<not> storable dto \<longrightarrow>
        updateNotification db_now nid dto st = (Inl QueryFailedError, st))
   \<and> (\<forall>n s. findOne_notification nid st = Some n \<and> storable dto \<and> u_status dto = Some s \<longrightarrow>
        (\<exists>r n'. fst (updateNotification db_now nid dto st) = Inr r \<and> r_status r = s
           \<and> findOne_notification nid (snd (updateNotification db_now nid dto st)) = Some n'
           \<and> status n' = mapNotificationStatus s))"
proof (intro conjI allI impI)
  assume "findOne_notification nid st = None"
  then show "updateNotification db_now nid dto st
               = (Inl (NotFoundException ''Notification not found''), st)"
    by (simp add: updateNotification_def)
next
  fix n
  assume "findOne_notification nid st = Some n \<and> \<not> storable dto"
  then show "updateNotification db_now nid dto st = (Inl QueryFailedError, st)"
    by (simp add: updateNotification_refused)
next
  fix n s
  assume a: "findOne_notification nid st = Some n \<and> storable dto \<and> u_status dto = Some s"
  then have f: "findOne_notification nid st = Some n" and ok: "storable dto" by simp_all
  have idn: "id' (column_form (apply_update dto n)) = nid"
    using f by (auto simp add: column_form_fields apply_update_id dest: findOne_notification_SomeD)
  have st: "status (apply_update dto n) = mapNotificationStatus s"
    using a by (simp add: apply_update_status)
  have stored: "findOne_notification nid (snd (updateNotification db_now nid dto st))
                  = Some (saved_row db_now (column_form (apply_update dto n)) n)"
    using idn by (simp add: updateNotification_found [OF f ok] findOne_notification_saved [OF f])
  show "\<exists>r n'. fst (updateNotification db_now nid dto st) = Inr r \<and> r_status r = s
           \<and> findOne_notification nid (snd (updateNotification db_now nid dto st)) = Some n'
           \<and> status n' = mapNotificationStatus s"
    using stored st
    by (simp add: updateNotification_found [OF f ok] transformNotificationToDto_def
          saved_row_fields column_form_fields mapEntityNotificationStatusToDto_inverse)
qed

lemma storable_examples:
  "storable (empty_update\<lparr>u_status := Some s\<rparr>)"
  "\<not> storable (empty_update\<lparr>u_status := Some s, u_retry_count := Some 2147483648\<rparr>)"
  "storable (empty_update\<lparr>u_retry_count := Some 0\<rparr>)"
  "storable (empty_update\<lparr>u_retry_count := Some 7\<rparr>)"
  "storable (empty_update\<lparr>u_status := Some s, u_error_message := Some ''timeout''\<rparr>)"
  by (simp_all add: storable_def empty_update_def int4_of_number_def int4_def text_value_def)


theorem updateNotification_checks_no_transition_witness:
  "updateNotification 2000 ''zz'' (empty_update\<lparr>u_status := Some SENT\<rparr>) example_store
     = (Inl (NotFoundException ''Notification not found''), example_store)
   \<and> updateNotification 2000 ''n1''
        (empty_update\<lparr>u_status := Some SENT, u_retry_count := Some 2147483648\<rparr>) example_store
     = (Inl QueryFailedError, example_store)
   \<and> (\<exists>r n'. fst (updateNotification 2000 ''n1'' (empty_update\<lparr>u_status := Some SENT\<rparr>) example_store) = Inr r
         \<and> r_status r = SENT
         \<and> findOne_notification ''n1''
              (snd (updateNotification 2000 ''n1'' (empty_update\<lparr>u_status := Some SENT\<rparr>) example_store))
             = Some n'
         \<and> status n' = Entity_SENT)"
proof -
  have u: "u_status (empty_update\<lparr>u_status := Some SENT\<rparr>) = Some SENT" by simp
  from updateNotification_checks_no_transition
         [of "''zz''" example_store 2000 "empty_update\<lparr>u_status := Some SENT\<rparr>"] example_findOne(3)
  have a: "updateNotification 2000 ''zz'' (empty_update\<lparr>u_status := Some SENT\<rparr>) example_store
     = (Inl (NotFoundException ''Notification not found''), example_store)" by blast
  from updateNotification_checks_no_transition
         [of "''n1''" example_store 2000
             "empty_update\<lparr>u_status := Some SENT, u_retry_count := Some 2147483648\<rparr>"]
       example_findOne(1) storable_examples(2) [of SENT]
  have b: "updateNotification 2000 ''n1''
        (empty_update\<lparr>u_status := Some SENT, u_retry_count := Some 2147483648\<rparr>) example_store
     = (Inl QueryFailedError, example_store)" by blast
  from updateNotification_checks_no_transition
         [of "''n1''" example_store 2000 "empty_update\<lparr>u_status := Some SENT\<rparr>"]
       example_findOne(1) storable_examples(1) [of SENT] u
  have c: "\<exists>r n'. fst (updateNotification 2000 ''n1'' (empty_update\<lparr>u_status := Some SENT\<rparr>) example_store) = Inr r
         \<and> r_status r = SENT
         \<and> findOne_notification ''n1''
              (snd (updateNotification 2000 ''n1'' (empty_update\<lparr>u_status := Some SENT\<rparr>) example_store))
             = Some n'
         \<and> status n' = mapNotificationStatus SENT" by blast
  from a b c show ?thesis by simp
qed

text \<open>
  The claim C1 as stated fails: delivered to pending is no edge of the state machine, yet
  the update of a delivered notification to pending succeeds and rewrites the row.
\<close>

theorem updateNotification_demotes_delivered:
  "\<not> spec_valid_transition Entity_DELIVERED Entity_PENDING
   \<and> map_option status (findOne_notification ''n1'' example_store) = Some Entity_DELIVERED
   \<and> map_sum id r_status
        (fst (updateNotification 2000 ''n1'' (empty_update\<lparr>u_status := Some PENDING\<rparr>) example_store))
       = Inr PENDING
   \<and> map_option status
        (findOne_notification ''n1''
           (snd (updateNotification 2000 ''n1'' (empty_update\<lparr>u_status := Some PENDING\<rparr>) example_store)))
       = Some Entity_PENDING"
proof -
  let ?n = "example_row ''n1'' ''A'' Entity_IN_APP Entity_DELIVERED 3"
  let ?dto = "empty_update\<lparr>u_status := Some PENDING\<rparr>"
  note found = updateNotification_found [OF example_findOne(1) storable_examples(1) [of PENDING]]
  have idn: "id' (column_form (apply_update ?dto ?n)) = ''n1''"
    by (simp add: column_form_fields apply_update_id example_row_fields)
  have st: "status (apply_update ?dto ?n) = Entity_PENDING"
    by (simp add: apply_update_status)
  have stored: "findOne_notification ''n1'' (snd (updateNotification 2000 ''n1'' ?dto example_store))
                  = Some (saved_row 2000 (column_form (apply_update ?dto ?n)) ?n)"
    using idn by (simp add: found findOne_notification_saved [OF example_findOne(1)])
  show ?thesis
    using stored st
    by (simp add: found example_findOne(1) transformNotificationToDto_def saved_row_fields
          column_form_fields spec_valid_transition_def example_row_fields)
qed

section \<open>Properties of read tracking\<close>

lemma find_save_existing_by_key:
  assumes "find P rows = Some n"
    and "\<And>x. P x \<Longrightarrow> id' x = id' e"
    and "\<And>s. P (saved_row t e s)"
  shows "\<exists>s. find P (save_existing t e rows) = Some (saved_row t e s)"
  using assms(1)
proof (induction rows)
  case Nil
  then show ?case by simp
next
  case (Cons x xs)
  show ?case
  proof (cases "id' x = id' e")
    case True
    then show ?thesis using assms(3) by (auto simp add: save_existing_def)
  next
    case False
    then have "\<not> P x" using assms(2) by blast
    with Cons False show ?thesis by (auto simp add: save_existing_def)
  qed
qed

lemma findOne_in_app_SomeD:
  "findOne_in_app nid uid st = Some n \<Longrightarrow>
   id' n = nid \<and> recipient_id n = uid \<and> type' n = Entity_IN_APP \<and> n \<in> set (notificationRepository st)"
  by (auto simp add: findOne_in_app_def find_Some_iff)

lemma findOne_in_app_None_iff:
  "findOne_in_app nid uid st = None \<longleftrightarrow>
   \<not> (\<exists>n \<in> set (notificationRepository st).
         id' n = nid \<and> recipient_id n = uid \<and> type' n = Entity_IN_APP)"
  by (auto simp add: findOne_in_app_def find_None_iff)

lemma findOne_in_app_after_open:
  assumes "findOne_in_app nid uid st = Some n"
  shows "\<exists>y. findOne_in_app nid uid
               (st\<lparr>notificationRepository :=
                    save_existing t (n\<lparr>opened_at := Some now\<rparr>) (notificationRepository st)\<rparr>) = Some y
             \<and> opened_at y = Some now"
proof -
  let ?P = "\<lambda>m. id' m = nid \<and> recipient_id m = uid \<and> type' m = Entity_IN_APP"
  from assms have n: "id' n = nid" "recipient_id n = uid" "type' n = Entity_IN_APP"
    using findOne_in_app_SomeD by blast+
  have "\<exists>s. find ?P (save_existing t (n\<lparr>opened_at := Some now\<rparr>) (notificationRepository st))
               = Some (saved_row t (n\<lparr>opened_at := Some now\<rparr>) s)"
  proof (rule find_save_existing_by_key)
    show "find ?P (notificationRepository st) = Some n"
      using assms by (simp add: findOne_in_app_def)
  next
    fix x assume "?P x"
    then show "id' x = id' (n\<lparr>opened_at := Some now\<rparr>)" using n by simp
  next
    fix s show "?P (saved_row t (n\<lparr>opened_at := Some now\<rparr>) s)"
      using n by (simp add: saved_row_fields)
  qed
  then show ?thesis
    by (auto simp add: findOne_in_app_def saved_row_fields)
qed

lemma markAsRead_unopened:
  "findOne_in_app nid uid st = Some n \<Longrightarrow> opened_at n = None \<Longrightarrow>
   markAsRead now db_now nid uid st =
     (Inr (transformNotificationToDto (saved_row db_now (n\<lparr>opened_at := Some now\<rparr>) n)),
      st\<lparr>notificationRepository :=
           save_existing db_now (n\<lparr>opened_at := Some now\<rparr>) (notificationRepository st)\<rparr>)"
  by (simp add: markAsRead_def Let_def)

lemma markAsRead_opened:
  "findOne_in_app nid uid st = Some n \<Longrightarrow> opened_at n = Some t \<Longrightarrow>
   markAsRead now db_now nid uid st = (Inr (transformNotificationToDto n), st)"
  by (simp add: markAsRead_def)

lemma r_opened_at_transform: "r_opened_at (transformNotificationToDto n) = opened_at n"
  by (simp add: transformNotificationToDto_def)

text \<open>
  Claim C5. \<^verbatim>\<open>markAsRead\<close> looks for the row with the given id, the caller as recipient and
  type \<^verbatim>\<open>in_app\<close>. Without such a row it fails with the not-found error and changes nothing.
  With \<^verbatim>\<open>opened_at\<close> set it succeeds, returns that timestamp and changes nothing. With
  \<^verbatim>\<open>opened_at\<close> null it succeeds and both the returned object and the stored row have
  \<^verbatim>\<open>opened_at\<close> at the current time. Whenever a call succeeds, a second call at any later
  reading of the clock succeeds with the \<^verbatim>\<open>opened_at\<close> of the first and changes nothing.
\<close>

theorem markAsRead_first_write_wins:
  "(\<not> (\<exists>n \<in> set (notificationRepository st).
          id' n = nid \<and> recipient_id n = uid \<and> type' n = Entity_IN_APP) \<longrightarrow>
      markAsRead now db_now nid uid st
        = (Inl (NotFoundException ''In-app notification not found''), st))
   \<and> (\<forall>n t. findOne_in_app nid uid st = Some n \<and> opened_at n = Some t \<longrightarrow>
        (\<exists>r. markAsRead now db_now nid uid st = (Inr r, st) \<and> r_opened_at r = Some t))
   \<and> (\<forall>n. findOne_in_app nid uid st = Some n \<and> opened_at n = None \<longrightarrow>
        (\<exists>r y. fst (markAsRead now db_now nid uid st) = Inr r \<and> r_opened_at r = Some now
           \<and> findOne_in_app nid uid (snd (markAsRead now db_now nid uid st)) = Some y
           \<and> opened_at y = Some now))
   \<and> (\<forall>r1 now2 db_now2. fst (markAsRead now db_now nid uid st) = Inr r1 \<longrightarrow>
        (\<exists>r2. markAsRead now2 db_now2 nid uid (snd (markAsRead now db_now nid uid st))
                = (Inr r2, snd (markAsRead now db_now nid uid st))
           \<and> r_opened_at r2 = r_opened_at r1))"
proof (intro conjI allI impI)
  assume "\<not> (\<exists>n \<in> set (notificationRepository st).
          id' n = nid \<and> recipient_id n = uid \<and> type' n = Entity_IN_APP)"
  then have "findOne_in_app nid uid st = None" using findOne_in_app_None_iff by blast
  then show "markAsRead now db_now nid uid st
        = (Inl (NotFoundException ''In-app notification not found''), st)"
    by (simp add: markAsRead_def)
next
  fix n t
  assume "findOne_in_app nid uid st = Some n \<and> opened_at n = Some t"
  then show "\<exists>r. markAsRead now db_now nid uid st = (Inr r, st) \<and> r_opened_at r = Some t"
    by (simp add: markAsRead_opened r_opened_at_transform)
next
  fix n
  assume a: "findOne_in_app nid uid st = Some n \<and> opened_at n = None"
  then obtain y where "findOne_in_app nid uid
               (st\<lparr>notificationRepository :=
                    save_existing db_now (n\<lparr>opened_at := Some now\<rparr>) (notificationRepository st)\<rparr>) = Some y"
        "opened_at y = Some now"
    using findOne_in_app_after_open by blast
  with a show "\<exists>r y. fst (markAsRead now db_now nid uid st) = Inr r \<and> r_opened_at r = Some now
           \<and> findOne_in_app nid uid (snd (markAsRead now db_now nid uid st)) = Some y
           \<and> opened_at y = Some now"
    by (simp add: markAsRead_unopened r_opened_at_transform saved_row_fields)
next
  fix r1 now2 db_now2
  assume ok: "fst (markAsRead now db_now nid uid st) = Inr r1"
  show "\<exists>r2. markAsRead now2 db_now2 nid uid (snd (markAsRead now db_now nid uid st))
                = (Inr r2, snd (markAsRead now db_now nid uid st))
           \<and> r_opened_at r2 = r_opened_at r1"
  proof (cases "findOne_in_app nid uid st")
    case None
    with ok show ?thesis by (simp add: markAsRead_def)
  next
    case (Some n)
    show ?thesis
    proof (cases "opened_at n")
      case None
      from Some obtain y where y: "findOne_in_app nid uid
               (st\<lparr>notificationRepository :=
                    save_existing db_now (n\<lparr>opened_at := Some now\<rparr>) (notificationRepository st)\<rparr>) = Some y"
        "opened_at y = Some now"
        using findOne_in_app_after_open by blast
      have first: "markAsRead now db_now nid uid st =
         (Inr (transformNotificationToDto (saved_row db_now (n\<lparr>opened_at := Some now\<rparr>) n)),
          st\<lparr>notificationRepository :=
           save_existing db_now (n\<lparr>opened_at := Some now\<rparr>) (notificationRepository st)\<rparr>)"
        using Some None by (rule markAsRead_unopened)
      from ok have r1: "r_opened_at r1 = Some now"
        unfolding first by (auto simp add: r_opened_at_transform saved_row_fields)
      show ?thesis
        unfolding first snd_conv
        using markAsRead_opened [OF y, of now2 db_now2] r1 y(2)
        by (simp add: r_opened_at_transform)
    next
      case (Some t)
      with \<open>findOne_in_app nid uid st = Some n\<close>
      have first: "markAsRead now db_now nid uid st = (Inr (transformNotificationToDto n), st)"
        by (rule markAsRead_opened)
      have second: "markAsRead now2 db_now2 nid uid st = (Inr (transformNotificationToDto n), st)"
        using \<open>findOne_in_app nid uid st = Some n\<close> Some by (rule markAsRead_opened)
      from ok show ?thesis unfolding first by (simp add: second)
    qed
  qed
qed

theorem markAsRead_first_write_wins_witness:
  "markAsRead 5000 5001 ''n1'' ''C'' example_store
     = (Inl (NotFoundException ''In-app notification not found''), example_store)
   \<and> (\<exists>r. markAsRead 5000 5001 ''n3'' ''A'' example_store = (Inr r, example_store)
          \<and> r_opened_at r = Some 1500)
   \<and> (\<exists>r y. fst (markAsRead 5000 5001 ''n1'' ''A'' example_store) = Inr r
          \<and> r_opened_at r = Some 5000
          \<and> findOne_in_app ''n1'' ''A'' (snd (markAsRead 5000 5001 ''n1'' ''A'' example_store)) = Some y
          \<and> opened_at y = Some 5000)
   \<and> (\<exists>r2. markAsRead 9000 9001 ''n1'' ''A'' (snd (markAsRead 5000 5001 ''n1'' ''A'' example_store))
              = (Inr r2, snd (markAsRead 5000 5001 ''n1'' ''A'' example_store))
          \<and> r_opened_at r2 = Some 5000)"
proof -
  let ?n1 = "example_row ''n1'' ''A'' Entity_IN_APP Entity_DELIVERED 3"
  let ?n3 = "(example_row ''n3'' ''A'' Entity_IN_APP Entity_SENT 0)
               \<lparr>opened_at := Some 1500, clicked_at := Some 1600\<rparr>"
  have none: "\<not> (\<exists>n \<in> set (notificationRepository example_store).
          id' n = ''n1'' \<and> recipient_id n = ''C'' \<and> type' n = Entity_IN_APP)"
    by (simp add: example_store_def example_row_def)
  have f1: "findOne_in_app ''n1'' ''A'' example_store = Some ?n1" "opened_at ?n1 = None"
    by (simp_all add: findOne_in_app_def example_store_def example_row_def)
  have f3: "findOne_in_app ''n3'' ''A'' example_store = Some ?n3" "opened_at ?n3 = Some 1500"
    by (simp_all add: findOne_in_app_def example_store_def example_row_def)
  note C = markAsRead_first_write_wins [of example_store "''n1''" "''C''" 5000 5001]
  note A3 = markAsRead_first_write_wins [of example_store "''n3''" "''A''" 5000 5001]
  note A1 = markAsRead_first_write_wins [of example_store "''n1''" "''A''" 5000 5001]
  from C none have a: "markAsRead 5000 5001 ''n1'' ''C'' example_store
     = (Inl (NotFoundException ''In-app notification not found''), example_store)"
    by blast
  from A3 f3 have b: "\<exists>r. markAsRead 5000 5001 ''n3'' ''A'' example_store = (Inr r, example_store)
          \<and> r_opened_at r = Some 1500"
    by blast
  from A1 f1 have c: "\<exists>r y. fst (markAsRead 5000 5001 ''n1'' ''A'' example_store) = Inr r
          \<and> r_opened_at r = Some 5000
          \<and> findOne_in_app ''n1'' ''A'' (snd (markAsRead 5000 5001 ''n1'' ''A'' example_store)) = Some y
          \<and> opened_at y = Some 5000"
    by blast
  then obtain r1 where r1: "fst (markAsRead 5000 5001 ''n1'' ''A'' example_store) = Inr r1"
      "r_opened_at r1 = Some 5000"
    by blast
  from A1 r1(1) have "\<exists>r2. markAsRead 9000 9001 ''n1'' ''A'' (snd (markAsRead 5000 5001 ''n1'' ''A'' example_store))
              = (Inr r2, snd (markAsRead 5000 5001 ''n1'' ''A'' example_store))
          \<and> r_opened_at r2 = r_opened_at r1"
    by blast
  with r1(2) have d: "\<exists>r2. markAsRead 9000 9001 ''n1'' ''A'' (snd (markAsRead 5000 5001 ''n1'' ''A'' example_store))
              = (Inr r2, snd (markAsRead 5000 5001 ''n1'' ''A'' example_store))
          \<and> r_opened_at r2 = Some 5000"
    by simp
  from a b c d show ?thesis by blast
qed

section \<open>Isolation by recipient\<close>

lemma unique_key_row:
  assumes "distinct (map id' rows)" "n \<in> set rows" "m \<in> set rows" "id' m = id' n"
  shows "m = n"
  using assms by (meson distinct_map inj_on_def)

lemma getOne_scoped_other_user:
  assumes "primary_key_unique st" "n \<in> set (notificationRepository st)"
    and "u \<noteq> recipient_id n" "u \<noteq> []"
  shows "getOne_scoped (id' n) (Some u) st = None"
proof -
  have "\<not> (\<exists>m \<in> set (notificationRepository st). id' m = id' n \<and> user_scope (Some u) m)"
  proof
    assume "\<exists>m \<in> set (notificationRepository st). id' m = id' n \<and> user_scope (Some u) m"
    then obtain m where m: "m \<in> set (notificationRepository st)" "id' m = id' n"
        "user_scope (Some u) m"
      by blast
    from assms(1,2) m(1,2) have "m = n"
      using unique_key_row by (simp add: primary_key_unique_def) blast
    with m(3) assms(3,4) show False
      by (simp add: user_scope_def truthy_string_def)
  qed
  then show ?thesis by (simp add: getOne_scoped_def find_None_iff)
qed

lemma findOne_in_app_other_user:
  assumes "primary_key_unique st" "n \<in> set (notificationRepository st)"
    and "u \<noteq> recipient_id n"
  shows "findOne_in_app (id' n) u st = None"
proof -
  have "\<not> (\<exists>m \<in> set (notificationRepository st).
             id' m = id' n \<and> recipient_id m = u \<and> type' m = Entity_IN_APP)"
  proof
    assume "\<exists>m \<in> set (notificationRepository st).
              id' m = id' n \<and> recipient_id m = u \<and> type' m = Entity_IN_APP"
    then obtain m where m: "m \<in> set (notificationRepository st)" "id' m = id' n"
        "recipient_id m = u"
      by blast
    from assms(1,2) m(1,2) have "m = n"
      using unique_key_row by (simp add: primary_key_unique_def) blast
    with m(3) assms(3) show False by simp
  qed
  then show ?thesis using findOne_in_app_None_iff by blast
qed

text \<open>
  The scope is applied under \<^verbatim>\<open>if (userId)\<close>: a call without a user id, or with the empty
  string, reads any notification.
\<close>

lemma getNotificationById_unscoped:
  "getNotificationById nid None st = getNotificationById nid (Some []) st"
  by (simp add: getNotificationById_def getOne_scoped_def user_scope_def truthy_string_def)

text \<open>
  Claim C10. Let \<open>n\<close> be a stored notification and \<open>u\<close> a user id (a uuid, so not the empty
  string) other than the recipient of \<open>n\<close>. Then \<^verbatim>\<open>getNotificationById\<close>, \<^verbatim>\<open>markAsRead\<close> and
  \<^verbatim>\<open>deleteNotification\<close>, called with the id of \<open>n\<close> and with \<open>u\<close>, each fail with a not-found
  error and return the state as it was.
\<close>

theorem scoped_operations_isolated:
  assumes "primary_key_unique st" and "n \<in> set (notificationRepository st)"
    and "u \<noteq> recipient_id n" and "u \<noteq> []"
  shows "getNotificationById (id' n) (Some u) st
           = (Inl (NotFoundException ''Notification not found or access denied''), st)
       \<and> markAsRead now db_now (id' n) u st
           = (Inl (NotFoundException ''In-app notification not found''), st)
       \<and> deleteNotification (id' n) (Some u) st
           = (Inl (NotFoundException ''Notification not found or access denied''), st)"
  using getOne_scoped_other_user [OF assms] findOne_in_app_other_user [OF assms(1-3)]
  by (simp add: getNotificationById_def markAsRead_def deleteNotification_def)

theorem scoped_operations_isolated_witness:
  "getNotificationById ''n1'' (Some ''C'') example_store
     = (Inl (NotFoundException ''Notification not found or access denied''), example_store)
   \<and> markAsRead 5000 5001 ''n1'' ''C'' example_store
     = (Inl (NotFoundException ''In-app notification not found''), example_store)
   \<and> deleteNotification ''n1'' (Some ''C'') example_store
     = (Inl (NotFoundException ''Notification not found or access denied''), example_store)"
proof -
  let ?n1 = "example_row ''n1'' ''A'' Entity_IN_APP Entity_DELIVERED 3"
  have k: "primary_key_unique example_store"
    by (simp add: primary_key_unique_def example_store_def example_users_def example_row_def)
  have m: "?n1 \<in> set (notificationRepository example_store)"
    by (simp add: example_store_def)
  have u: "''C'' \<noteq> recipient_id ?n1" "''C'' \<noteq> []"
    by (simp_all add: example_row_def)
  have i: "id' ?n1 = ''n1''" by (simp add: example_row_def)
  from scoped_operations_isolated [OF k m u, of 5000 5001] show ?thesis
    unfolding i .
qed

section \<open>Properties of bulk dispatch\<close>

lemma bulk_entities_recipients:
  "map new_recipient_id (bulk_entities dto clock k ids) = ids"
  by (induction ids arbitrary: k) (simp_all add: bulk_entity_def Let_def)

lemma inserted_rows_recipients:
  "map recipient_id (inserted_rows uuids t k es) = map new_recipient_id es"
  by (induction es arbitrary: k) (simp_all add: inserted_row_def)

lemma inserted_rows_payloads:
  "map payload (inserted_rows uuids t k es) = map new_payload es"
  by (induction es arbitrary: k) (simp_all add: inserted_row_def)

lemma inserted_rows_statuses:
  "map status (inserted_rows uuids t k es) = map new_status es"
  by (induction es arbitrary: k) (simp_all add: inserted_row_def)

lemma inserted_rows_retry_counts:
  "n \<in> set (inserted_rows uuids t k es) \<Longrightarrow> retry_count n = 0"
  by (induction es arbitrary: k) (auto simp add: inserted_row_def)

lemma length_bulk_entities: "length (bulk_entities dto clock k ids) = length ids"
  by (induction ids arbitrary: k) simp_all

lemma length_inserted_rows: "length (inserted_rows uuids t k es) = length es"
  by (induction es arbitrary: k) simp_all

lemma r_recipient_id_transform: "r_recipient_id (transformNotificationToDto n) = recipient_id n"
  by (simp add: transformNotificationToDto_def)

lemma r_payload_transform: "r_payload (transformNotificationToDto n) = payload n"
  by (simp add: transformNotificationToDto_def)



lemma createBulkNotifications_notifications:
  "notifications (fst (createBulkNotifications uuids clock t dto st))
     = map transformNotificationToDto
         (inserted_rows uuids t 0
            (bulk_entities dto clock 0 (map user_id (find_users_In (b_recipient_ids dto) st))))"
  by (simp add: createBulkNotifications_def Let_def)

text \<open>
  One record is created per row the user lookup returns, in the order of the table; the
  ids of the request that no user has are reported as failed.
\<close>

lemma createBulkNotifications_recipients:
  "map r_recipient_id (notifications (fst (createBulkNotifications uuids clock t dto st)))
     = map user_id (find_users_In (b_recipient_ids dto) st)"
  by (simp add: createBulkNotifications_notifications o_def r_recipient_id_transform
        inserted_rows_recipients bulk_entities_recipients
        flip: map_map [unfolded o_def, of r_recipient_id transformNotificationToDto])

lemma createBulkNotifications_total:
  "total_created (fst (createBulkNotifications uuids clock t dto st))
     = length (find_users_In (b_recipient_ids dto) st)"
  by (simp add: createBulkNotifications_def Let_def length_inserted_rows length_bulk_entities)

lemma createBulkNotifications_failed:
  "failed_recipients (fst (createBulkNotifications uuids clock t dto st))
     = filter (\<lambda>i. i \<notin> user_id ` set (userRepository st)) (b_recipient_ids dto)"
proof -
  have "\<And>i. i \<in> set (b_recipient_ids dto) \<Longrightarrow>
          (i \<notin> set (map user_id (find_users_In (b_recipient_ids dto) st)))
            = (i \<notin> user_id ` set (userRepository st))"
    by (auto simp add: find_users_In_def)
  then show ?thesis
    by (simp add: createBulkNotifications_def Let_def cong: filter_cong)
qed






lemma bulk_entity_bulk_id:
  "map_of (new_payload (bulk_entity dto now r)) ''bulk_id''
     = Some (JString (''bulk_'' @ Number_toString now))"
  by (simp add: bulk_entity_def Let_def spread_with_def update_conv')

lemma bulk_entities_bulk_id:
  "e \<in> set (bulk_entities dto clock k ids) \<Longrightarrow>
   \<exists>j. map_of (new_payload e) ''bulk_id'' = Some (JString (''bulk_'' @ Number_toString (clock j)))"
  by (induction ids arbitrary: k) (auto simp add: bulk_entity_bulk_id)

text \<open>
  When the clock does not move while the loop runs, every record of the batch carries the
  same \<^verbatim>\<open>bulk_id\<close>.
\<close>

lemma createBulkNotifications_shared_bulk_id:
  assumes "\<And>k. clock k = t0"
    and "x \<in> set (notifications (fst (createBulkNotifications uuids clock t dto st)))"
  shows "map_of (r_payload x) ''bulk_id'' = Some (JString (''bulk_'' @ Number_toString t0))"
proof -
  let ?es = "bulk_entities dto clock 0 (map user_id (find_users_In (b_recipient_ids dto) st))"
  from assms(2) obtain n where n: "n \<in> set (inserted_rows uuids t 0 ?es)"
      "x = transformNotificationToDto n"
    by (auto simp add: createBulkNotifications_notifications)
  from n(1) have "payload n \<in> set (map payload (inserted_rows uuids t 0 ?es))"
    by simp
  then have "r_payload x \<in> set (map new_payload ?es)"
    by (simp only: inserted_rows_payloads n(2) r_payload_transform)
  then obtain e where "e \<in> set ?es" "r_payload x = new_payload e" by auto
  then show ?thesis using bulk_entities_bulk_id [of e dto clock 0] assms(1) by auto
qed

text \<open>
  The example of the specification: of the recipients \<open>A\<close>, \<open>B\<close>, \<open>C\<close> only \<open>B\<close> does not exist; two
  records are created, for \<open>A\<close> and \<open>C\<close>, and \<open>B\<close> is reported as failed.
\<close>

lemma createBulkNotifications_example:
  "map r_recipient_id (notifications (fst (createBulkNotifications example_uuids frozen_clock 2000
       example_bulk example_store))) = [''A'', ''C'']
   \<and> total_created (fst (createBulkNotifications example_uuids frozen_clock 2000
       example_bulk example_store)) = 2
   \<and> failed_recipients (fst (createBulkNotifications example_uuids frozen_clock 2000
       example_bulk example_store)) = [''B'']"
proof -
  have f: "find_users_In (b_recipient_ids example_bulk) example_store = example_users"
    by (simp add: find_users_In_def example_store_def example_users_def example_bulk_def)
  have u: "userRepository example_store = example_users"
    by (simp add: example_store_def)
  show ?thesis
    by (simp add: createBulkNotifications_recipients createBulkNotifications_failed
          createBulkNotifications_total f u)
       (simp add: example_users_def example_bulk_def)
qed

text \<open>
  Claim C3 on the code. \<^verbatim>\<open>Date.now()\<close> is read in every round of the loop, so the records
  of one batch share their \<^verbatim>\<open>bulk_id\<close> only while the clock stands still. For the request
  to \<open>A\<close>, \<open>B\<close>, \<open>C\<close>, with the clock one millisecond further in the second round, the two
  records created carry different \<^verbatim>\<open>bulk_id\<close>s.
\<close>

theorem createBulkNotifications_bulk_id_per_round:
  "map (\<lambda>x. (r_recipient_id x, map_of (r_payload x) ''bulk_id''))
     (notifications (fst (createBulkNotifications example_uuids ticking_clock 2000
        example_bulk example_store)))
   = [(''A'', Some (JString ''bulk_1700000000000'')),
      (''C'', Some (JString ''bulk_1700000000001''))]"
proof -
  have f: "find_users_In (b_recipient_ids example_bulk) example_store = example_users"
    by (simp add: find_users_In_def example_store_def example_users_def example_bulk_def)
  have n0: "Number_toString (ticking_clock 0) = ''1700000000000''"
    by (simp add: Number_toString_def ticking_clock_def)
  have n1: "Number_toString (ticking_clock (Suc 0)) = ''1700000000001''"
    by (simp add: Number_toString_def ticking_clock_def)
  show ?thesis
    by (simp add: createBulkNotifications_notifications f example_users_def
          r_recipient_id_transform r_payload_transform inserted_row_def
          bulk_entity_bulk_id [unfolded n0] n0 n1)
       (simp add: bulk_entity_def Let_def spread_with_def update_conv' n0 n1)
qed

section \<open>Properties of the statistics\<close>

subsection \<open>Rounding to the nearest double\<close>






lemma binade_upper:
  assumes "x \<noteq> 0"
  shows "\<bar>x\<bar> < two_powi (binade x + 1)"
proof (cases "1 \<le> \<bar>x\<bar>")
  case True
  then have n: "0 < \<lfloor>\<bar>x\<bar>\<rfloor>" by linarith
  from bitlen_bounds [OF n] have "\<lfloor>\<bar>x\<bar>\<rfloor> + 1 \<le> 2 ^ nat (bitlen \<lfloor>\<bar>x\<bar>\<rfloor>)" by simp
  then have "(of_int (\<lfloor>\<bar>x\<bar>\<rfloor> + 1) :: rat) \<le> of_int (2 ^ nat (bitlen \<lfloor>\<bar>x\<bar>\<rfloor>))"
    by (simp only: of_int_le_iff)
  then have b: "(of_int \<lfloor>\<bar>x\<bar>\<rfloor> + 1 :: rat) \<le> 2 ^ nat (bitlen \<lfloor>\<bar>x\<bar>\<rfloor>)"
    by (simp only: of_int_power of_int_numeral of_int_add of_int_1)
  have "\<bar>x\<bar> < of_int \<lfloor>\<bar>x\<bar>\<rfloor> + 1" by linarith
  also note b
  also have "2 ^ nat (bitlen \<lfloor>\<bar>x\<bar>\<rfloor>) = two_powi (binade x + 1)"
    using True bitlen_nonneg [of "\<lfloor>\<bar>x\<bar>\<rfloor>"] by (simp add: binade_def two_powi_def)
  finally show ?thesis .
next
  case False
  define y where "y = 1 / \<bar>x\<bar>"
  define N where "N = \<lceil>y\<rceil>"
  define j where "j = bitlen (N - 1)"
  from False assms have y1: "1 < y" by (simp add: y_def)
  then have N2: "2 \<le> N" unfolding N_def by linarith
  then have pos: "0 < N - 1" by simp
  from pos have j1: "1 \<le> j" by (auto simp add: j_def bitlen_alt_def)
  from bitlen_bounds [OF pos] have "2 ^ nat (j - 1) \<le> N - 1" by (simp add: j_def)
  then have "(of_int (2 ^ nat (j - 1)) :: rat) \<le> of_int (N - 1)" by (simp only: of_int_le_iff)
  then have "(2 ^ nat (j - 1) :: rat) \<le> of_int N - 1"
    by (simp only: of_int_power of_int_numeral of_int_diff of_int_1)
  moreover have "of_int N - 1 < y" unfolding N_def by linarith
  ultimately have lt: "2 ^ nat (j - 1) < y" by linarith
  have "\<bar>x\<bar> = 1 / y" by (simp add: y_def)
  also have "\<dots> < 1 / 2 ^ nat (j - 1)"
    using lt by (simp add: frac_less2)
  also have "\<dots> = two_powi (binade x + 1)"
  proof (cases "j = 1")
    case True
    then show ?thesis using False by (simp add: binade_def two_powi_def j_def N_def y_def)
  next
    case False
    with j1 have "1 < j" by simp
    then have "nat (j - 1) = nat (- (- j + 1))" by simp
    then show ?thesis
      using \<open>1 < j\<close> \<open>\<not> 1 \<le> \<bar>x\<bar>\<close>
      by (simp add: binade_def two_powi_def j_def N_def y_def)
  qed
  finally show ?thesis .
qed












subsection \<open>What is counted\<close>






subsection \<open>The three rates\<close>











text \<open>
  A percentage half-way between two hundredths does not always go upwards. On a table of 23
  sent and 137 failed rows the percentage is 14.375; the product computed in double precision
  lies just below 1437.5, and the rate returned is 14.37, not 14.38.
\<close>

lemma delivery_rate_half_way_rounds_down:
  "spec_delivered None sent_23_failed_137 = 0
   \<and> spec_sent None sent_23_failed_137 = 23
   \<and> spec_failed None sent_23_failed_137 = 137
   \<and> half_up_two_decimals (spec_percentage (0 + 23) (0 + 23 + 137)) = 1438 / 100
   \<and> delivery_rate (getNotificationStats 0 None sent_23_failed_137) = double (1437 / 100)
   \<and> double (1437 / 100) \<noteq> double (1438 / 100)
   \<and> double (1437 / 100) < 1438 / 100 - 1 / 200"
  by code_simp

section \<open>The retry count along a run\<close>













lemma findOne_notification_armed [simp]:
  "findOne_notification nid (st\<lparr>timers := ts\<rparr>) = findOne_notification nid st"
  "findOne_notification nid (st\<lparr>confirmations := hs\<rparr>) = findOne_notification nid st"
  by (simp_all add: findOne_notification_def)


lemma retry_count_of_timers [simp]:
  "retry_count_of nid (processNotificationAsync k st) = retry_count_of nid st"
  by (simp add: retry_count_of_def)

lemma retry_count_of_fold_timers [simp]:
  "retry_count_of nid (fold (\<lambda>n. processNotificationAsync (id' n)) ns st) = retry_count_of nid st"
  by (induction ns arbitrary: st) simp_all




















text \<open>
  Where a retry goes through between the two timers of the attempt before it, the second
  timer brings the retry count back to the one it loaded: on \<open>overtaken_run\<close> the count of
  \<open>n2\<close> is 2 after the second retry and 1 after the confirmation. That run is not one of
  those the statement above is about.
\<close>

lemma confirmation_timer_restores_retry_count:
  "retry_count_of ''n2'' (fold perform (take 4 overtaken_run) example_store) = Some 2
   \<and> retry_count_of ''n2'' (fold perform overtaken_run example_store) = Some 1
   \<and> \<not> counting_run overtaken_run example_store"
  by code_simp

end
